theory Spec2Isabelle
  imports Complex_Main
begin

section \<open>Data model (api/models.py)\<close>

text \<open>
  A finite Python \<open>Decimal\<close> is a signed coefficient and an exponent; its value is
  \<open>coefficient * 10 ^ exponent\<close>, and \<open>as_tuple().exponent\<close> is the exponent. The
  special values (NaN, Infinity) are never produced by the request parser and are left out.
\<close>

datatype decimal = Decimal (coefficient: int) (exponent: int)

definition decimal_value :: "decimal \<Rightarrow> rat" where
  "decimal_value d =
     (if 0 \<le> exponent d then of_int (coefficient d * 10 ^ nat (exponent d))
      else of_int (coefficient d) / of_int (10 ^ nat (- exponent d)))"

text \<open>
  A row of the \<open>Wallet\<close> table. The balance column is an exact decimal number; it is
  held here as a rational, and the database's addition is exact.
\<close>

record Wallet =
  wallet_pk :: nat
  label :: string
  balance :: rat

text \<open>
  A \<open>Transaction\<close> object in memory: \<open>pk\<close> is \<open>None\<close> until the object is saved,
  \<open>wallet\<close> is the primary key of the wallet referred to. The \<open>timestamp\<close> field, which
  no operation below reads, is left out.
\<close>

record Transaction =
  pk :: "nat option"
  wallet :: nat
  txid :: string
  amount :: decimal

text \<open>
  A row of the \<open>Transaction\<close> table. The row holds the decimal that was saved; the
  database hands the same number back with 18 fractional digits.
\<close>

record Transaction_row =
  tx_pk :: nat
  tx_wallet :: nat
  tx_txid :: string
  tx_amount :: decimal

record db =
  wallets :: "Wallet list"
  transactions :: "Transaction_row list"

definition empty_db :: db where
  "empty_db = \<lparr>wallets = [], transactions = []\<rparr>"

definition instance_of :: "Transaction_row \<Rightarrow> Transaction" where
  "instance_of r = \<lparr>pk = Some (tx_pk r), wallet = tx_wallet r, txid = tx_txid r, amount = tx_amount r\<rparr>"

definition row_of :: "nat \<Rightarrow> Transaction \<Rightarrow> Transaction_row" where
  "row_of k t = \<lparr>tx_pk = k, tx_wallet = wallet t, tx_txid = txid t, tx_amount = amount t\<rparr>"

text \<open>\<open>Wallet.objects.get(pk=k)\<close> and \<open>Transaction.objects.get(pk=k)\<close>; \<open>None\<close> is \<open>DoesNotExist\<close>.\<close>

definition get_wallet :: "nat \<Rightarrow> db \<Rightarrow> Wallet option" where
  "get_wallet k s = find (\<lambda>w. wallet_pk w = k) (wallets s)"

definition get_transaction :: "nat \<Rightarrow> db \<Rightarrow> Transaction_row option" where
  "get_transaction k s = find (\<lambda>r. tx_pk r = k) (transactions s)"

text \<open>The primary key the database gives to a new row: one that no row of the table has.\<close>

definition fresh_pk :: "nat list \<Rightarrow> nat" where
  "fresh_pk ks = Suc (fold max ks 0)"

subsection \<open>Errors\<close>

text \<open>
  A validation error is a failure kind under the key of the offending field, as in the
  dictionaries the code raises. The other exceptions are not validation errors.
\<close>

datatype kind =
    WalletNotFound | TransactionNotFound | DuplicateTxid | DuplicateLabel
  | PrecisionExceeded | NegativeBalance | InvalidAmount
  | Blank | MaxLength | MaxDigits | MaxDecimalPlaces | MaxWholeDigits

type_synonym error = "string \<times> kind"

datatype exn =
    ValidationError "error list"
  | Wallet_DoesNotExist
  | ValueError
  | Http404
  | MethodNotAllowed

subsection \<open>Field validation declared by the model\<close>

text \<open>The number of digits of a coefficient (\<open>len(digit_tuple)\<close>; zero has one digit).\<close>

fun len_digits :: "nat \<Rightarrow> nat" where
  "len_digits n = (if n < 10 then 1 else Suc (len_digits (n div 10)))"

declare len_digits.simps [simp del]

text \<open>
  Django's validator for a \<open>DecimalField(max_digits, decimal_places)\<close>: it raises at the
  first of its three checks that fails.
\<close>

definition DecimalValidator :: "nat \<Rightarrow> nat \<Rightarrow> decimal \<Rightarrow> kind list" where
  "DecimalValidator max_digits decimal_places d =
     (let n = len_digits (nat \<bar>coefficient d\<bar>);
          e = exponent d;
          digits = (if 0 \<le> e then (if coefficient d = 0 then n else n + nat e)
                    else if n < nat (- e) then nat (- e) else n);
          decimals = (if 0 \<le> e then 0 else nat (- e));
          whole_digits = digits - decimals
      in if max_digits < digits then [MaxDigits]
         else if decimal_places < decimals then [MaxDecimalPlaces]
         else if max_digits - decimal_places < whole_digits then [MaxWholeDigits]
         else [])"

text \<open>
  \<open>clean_fields\<close>: the checks that follow from the field declarations of \<open>Transaction\<close>:
  the wallet referred to exists, \<open>txid\<close> is not blank and has at most 255 characters,
  \<open>amount\<close> fits \<open>max_digits=30, decimal_places=18\<close>.
\<close>

definition clean_fields :: "Transaction \<Rightarrow> db \<Rightarrow> error list" where
  "clean_fields t s =
     (case get_wallet (wallet t) s of None \<Rightarrow> [(''wallet'', WalletNotFound)] | Some _ \<Rightarrow> [])
     @ (if txid t = [] then [(''txid'', Blank)]
        else if 255 < length (txid t) then [(''txid'', MaxLength)] else [])
     @ map (Pair ''amount'') (DecimalValidator 30 18 (amount t))"

text \<open>
  \<open>validate_unique\<close>: \<open>txid\<close> is declared \<open>unique=True\<close>; a field that already has an
  error is not checked, and the object's own row does not count.
\<close>

definition validate_unique :: "string list \<Rightarrow> Transaction \<Rightarrow> db \<Rightarrow> error list" where
  "validate_unique exclude t s =
     (if ''txid'' \<notin> set exclude
         \<and> (\<exists>r \<in> set (transactions s). tx_txid r = txid t \<and> Some (tx_pk r) \<noteq> pk t)
      then [(''txid'', DuplicateTxid)] else [])"

subsection \<open>Transaction.clean\<close>

text \<open>
  \<open>not self.pk\<close> holds for an object without primary key and for the primary key 0.
\<close>

definition not_pk :: "Transaction \<Rightarrow> bool" where
  "not_pk t = (case pk t of None \<Rightarrow> True | Some k \<Rightarrow> k = 0)"

text \<open>
  The prospective balance: for a new object the balance plus the amount, for an existing
  one the balance plus the difference to the amount in the table.
\<close>

definition prospective_balance :: "Transaction \<Rightarrow> Wallet \<Rightarrow> db \<Rightarrow> error + rat" where
  "prospective_balance t wallet_instance s =
     (case (if not_pk t then None else pk t) of
        None \<Rightarrow> Inr (balance wallet_instance + decimal_value (amount t))
      | Some k \<Rightarrow>
          (case get_transaction k s of
             None \<Rightarrow> Inl (''__all__'', TransactionNotFound)
           | Some old_transaction \<Rightarrow>
               Inr (balance wallet_instance
                    + (decimal_value (amount t) - decimal_value (tx_amount old_transaction)))))"

definition Transaction_clean :: "Transaction \<Rightarrow> db \<Rightarrow> error + unit" where
  "Transaction_clean t s =
     (case get_wallet (wallet t) s of
        None \<Rightarrow> Inl (''wallet'', WalletNotFound)
      | Some wallet_instance \<Rightarrow>
          (case prospective_balance t wallet_instance s of
             Inl e \<Rightarrow> Inl e
           | Inr b \<Rightarrow> if b < 0 then Inl (''amount'', NegativeBalance) else Inr ()))"

text \<open>
  \<open>full_clean\<close> runs \<open>clean_fields\<close>, \<open>clean\<close> and \<open>validate_unique\<close>, each of them also when
  an earlier one has failed, and raises all their errors together; the empty list is
  success.
\<close>

definition full_clean :: "Transaction \<Rightarrow> db \<Rightarrow> error list" where
  "full_clean t s =
     (let errors = clean_fields t s
                   @ (case Transaction_clean t s of Inl e \<Rightarrow> [e] | Inr _ \<Rightarrow> [])
      in errors @ validate_unique (map fst errors) t s)"

subsection \<open>Signal receivers (api/signals.py)\<close>

text \<open>
  \<open>Wallet.objects.select_for_update().filter(pk=k).update(balance=F('balance') + a)\<close>:
  every row with that primary key gets the new balance; no row, no change.
\<close>

definition add_to_balance :: "nat \<Rightarrow> rat \<Rightarrow> db \<Rightarrow> db" where
  "add_to_balance k a s =
     s\<lparr>wallets := map (\<lambda>w. if wallet_pk w = k then w\<lparr>balance := balance w + a\<rparr> else w) (wallets s)\<rparr>"

definition update_wallet_balance_on_transaction_save :: "Transaction \<Rightarrow> bool \<Rightarrow> db \<Rightarrow> db" where
  "update_wallet_balance_on_transaction_save instance created s =
     (if \<not> created then s
      else add_to_balance (wallet instance) (decimal_value (amount instance)) s)"

definition update_wallet_balance_on_transaction_delete :: "Transaction \<Rightarrow> db \<Rightarrow> db" where
  "update_wallet_balance_on_transaction_delete instance s =
     add_to_balance (wallet instance) (- decimal_value (amount instance)) s"

text \<open>
  \<open>with db_transaction.atomic()\<close>: when the body raises, the writes it has made are
  rolled back.
\<close>

definition atomic :: "(db \<Rightarrow> (exn + 'a) \<times> db) \<Rightarrow> db \<Rightarrow> (exn + 'a) \<times> db" where
  "atomic body s = (case body s of (Inl e, _) \<Rightarrow> (Inl e, s) | (Inr x, s') \<Rightarrow> (Inr x, s'))"

subsection \<open>Transaction.save and Transaction.delete\<close>

text \<open>
  The inherited \<open>save\<close>: an object without primary key is inserted under a new one; an
  object with a primary key replaces the row that has it, and is inserted under it when
  there is no such row. The \<open>post_save\<close> receivers run after the write, with
  \<open>created\<close> telling an insertion from a replacement.
\<close>

definition Model_save :: "Transaction \<Rightarrow> db \<Rightarrow> Transaction \<times> db" where
  "Model_save t s =
     (case pk t of
        None \<Rightarrow>
          (let k = fresh_pk (map tx_pk (transactions s)); t' = t\<lparr>pk := Some k\<rparr>
           in (t', update_wallet_balance_on_transaction_save t' True
                     (s\<lparr>transactions := transactions s @ [row_of k t]\<rparr>)))
      | Some k \<Rightarrow>
          (if \<exists>r \<in> set (transactions s). tx_pk r = k
           then (t, update_wallet_balance_on_transaction_save t False
                     (s\<lparr>transactions := map (\<lambda>r. if tx_pk r = k then row_of k t else r) (transactions s)\<rparr>))
           else (t, update_wallet_balance_on_transaction_save t True
                     (s\<lparr>transactions := transactions s @ [row_of k t]\<rparr>))))"

definition Transaction_save :: "Transaction \<Rightarrow> db \<Rightarrow> (exn + Transaction) \<times> db" where
  "Transaction_save t s =
     (case full_clean t s of
        [] \<Rightarrow> (case Model_save t s of (t', s') \<Rightarrow> (Inr t', s'))
      | e # es \<Rightarrow> (Inl (ValidationError (e # es)), s))"

text \<open>
  The inherited \<open>delete\<close>: it refuses an object without primary key, removes the row
  with the object's primary key, and then runs the \<open>post_delete\<close> receivers.
\<close>

definition Model_delete :: "Transaction \<Rightarrow> db \<Rightarrow> (exn + unit) \<times> db" where
  "Model_delete t s =
     (case pk t of
        None \<Rightarrow> (Inl ValueError, s)
      | Some k \<Rightarrow>
          (Inr (), update_wallet_balance_on_transaction_delete t
                     (s\<lparr>transactions := filter (\<lambda>r. tx_pk r \<noteq> k) (transactions s)\<rparr>)))"

definition Transaction_delete :: "Transaction \<Rightarrow> db \<Rightarrow> (exn + unit) \<times> db" where
  "Transaction_delete t =
     atomic (\<lambda>s.
       case get_wallet (wallet t) s of
         None \<Rightarrow> (Inl Wallet_DoesNotExist, s)
       | Some wallet_instance \<Rightarrow>
           (let prospective = balance wallet_instance - decimal_value (amount t)
            in if prospective < 0
               then (Inl (ValidationError [(''non_field_errors'', NegativeBalance)]), s)
               else Model_delete t s))"

section \<open>Serializers (api/serializers.py)\<close>

text \<open>
  The argument of \<open>validate_amount\<close> is a \<open>Decimal\<close>, or another value together with
  the result of \<open>Decimal(str(value))\<close>, which is \<open>None\<close> when the conversion raises.
\<close>

datatype py_value = IsDecimal decimal | NotDecimal "decimal option"

definition validate_amount :: "py_value \<Rightarrow> error + decimal" where
  "validate_amount v =
     (case (case v of
              IsDecimal d \<Rightarrow> Inr d
            | NotDecimal None \<Rightarrow> Inl (''amount'', InvalidAmount)
            | NotDecimal (Some d) \<Rightarrow> Inr d) of
        Inl e \<Rightarrow> Inl e
      | Inr d \<Rightarrow> if exponent d < - 18 then Inl (''amount'', PrecisionExceeded) else Inr d)"

definition validate_txid :: "Transaction option \<Rightarrow> string \<Rightarrow> db \<Rightarrow> error + string" where
  "validate_txid instance v s =
     (if (case instance of None \<Rightarrow> True | Some i \<Rightarrow> txid i \<noteq> v)
         \<and> (\<exists>r \<in> set (transactions s). tx_txid r = v)
      then Inl (''txid'', DuplicateTxid) else Inr v)"

text \<open>The \<open>wallet\<close> relation field looks the wallet up in \<open>Wallet.objects.all()\<close>.\<close>

definition validate_wallet :: "nat \<Rightarrow> db \<Rightarrow> error + nat" where
  "validate_wallet k s =
     (case get_wallet k s of None \<Rightarrow> Inl (''wallet'', WalletNotFound) | Some w \<Rightarrow> Inr (wallet_pk w))"

definition errors_of :: "error + 'a \<Rightarrow> error list" where
  "errors_of r = (case r of Inl e \<Rightarrow> [e] | Inr _ \<Rightarrow> [])"

text \<open>
  \<open>is_valid\<close> for a new transaction: the fields \<open>wallet\<close>, \<open>txid\<close>, \<open>amount\<close> are validated
  in this order, each of them also when an earlier one has failed, and the errors of all
  fields are raised together. The framework's own format checks on the fields repeat
  the limits that \<open>full_clean\<close> checks below; they can only reject a request before
  anything is written, and are not modelled.
\<close>

definition is_valid_create :: "nat \<Rightarrow> string \<Rightarrow> py_value \<Rightarrow> db \<Rightarrow> error list + Transaction" where
  "is_valid_create w x a s =
     (case (validate_wallet w s, validate_txid None x s, validate_amount a) of
        (Inr w', Inr x', Inr a') \<Rightarrow> Inr \<lparr>pk = None, wallet = w', txid = x', amount = a'\<rparr>
      | (rw, rx, ra) \<Rightarrow> Inl (errors_of rw @ errors_of rx @ errors_of ra))"

text \<open>
  \<open>create\<close>: the object is built from the validated data, \<open>full_clean\<close> is called on it,
  and then \<open>save\<close>, which calls \<open>full_clean\<close> again.
\<close>

definition TransactionSerializer_create :: "Transaction \<Rightarrow> db \<Rightarrow> (exn + Transaction) \<times> db" where
  "TransactionSerializer_create transaction_instance s =
     (case full_clean transaction_instance s of
        [] \<Rightarrow> Transaction_save transaction_instance s
      | e # es \<Rightarrow> (Inl (ValidationError (e # es)), s))"

text \<open>
  The validated data of an update hold the fields that the request gave.
\<close>

record validated_data =
  vd_wallet :: "nat option"
  vd_txid :: "string option"
  vd_amount :: "decimal option"

definition is_valid_update ::
  "Transaction \<Rightarrow> nat option \<Rightarrow> string option \<Rightarrow> py_value option \<Rightarrow> db \<Rightarrow> error list + validated_data" where
  "is_valid_update instance w x a s =
     (let rw = map_option (\<lambda>k. validate_wallet k s) w;
          rx = map_option (\<lambda>v. validate_txid (Some instance) v s) x;
          ra = map_option validate_amount a;
          errors = (case rw of None \<Rightarrow> [] | Some r \<Rightarrow> errors_of r)
                   @ (case rx of None \<Rightarrow> [] | Some r \<Rightarrow> errors_of r)
                   @ (case ra of None \<Rightarrow> [] | Some r \<Rightarrow> errors_of r)
      in if errors = []
         then Inr \<lparr>vd_wallet = (case rw of Some (Inr k) \<Rightarrow> Some k | _ \<Rightarrow> None),
                   vd_txid = (case rx of Some (Inr v) \<Rightarrow> Some v | _ \<Rightarrow> None),
                   vd_amount = (case ra of Some (Inr d) \<Rightarrow> Some d | _ \<Rightarrow> None)\<rparr>
         else Inl errors)"

definition TransactionSerializer_update ::
  "Transaction \<Rightarrow> validated_data \<Rightarrow> db \<Rightarrow> (exn + Transaction) \<times> db" where
  "TransactionSerializer_update instance vd s =
     (let i1 = (case vd_wallet vd of None \<Rightarrow> instance | Some k \<Rightarrow> instance\<lparr>wallet := k\<rparr>);
          i2 = (case vd_txid vd of None \<Rightarrow> i1 | Some v \<Rightarrow> i1\<lparr>txid := v\<rparr>);
          i3 = (case vd_amount vd of None \<Rightarrow> i2 | Some d \<Rightarrow> i2\<lparr>amount := d\<rparr>)
      in case full_clean i3 s of
           [] \<Rightarrow> Transaction_save i3 s
         | e # es \<Rightarrow> (Inl (ValidationError (e # es)), s))"

section \<open>Views (api/views.py)\<close>

text \<open>
  \<open>perform_create\<close> and \<open>perform_destroy\<close> run the write inside \<open>atomic\<close> and pass a
  validation error on under the same keys.
\<close>

definition TransactionViewSet_perform_create :: "Transaction \<Rightarrow> db \<Rightarrow> (exn + Transaction) \<times> db" where
  "TransactionViewSet_perform_create validated = atomic (TransactionSerializer_create validated)"

definition TransactionViewSet_perform_destroy :: "Transaction \<Rightarrow> db \<Rightarrow> (exn + unit) \<times> db" where
  "TransactionViewSet_perform_destroy instance = atomic (Transaction_delete instance)"

text \<open>
  The actions of the viewset: \<open>create\<close> validates the request data and calls
  \<open>perform_create\<close>; \<open>destroy\<close> fetches the object, answering 404 when there is none, and
  calls \<open>perform_destroy\<close>. The amount of a request arrives as a \<open>Decimal\<close>.
\<close>

definition TransactionViewSet_create :: "nat \<Rightarrow> string \<Rightarrow> decimal \<Rightarrow> db \<Rightarrow> (exn + Transaction) \<times> db" where
  "TransactionViewSet_create w x a s =
     (case is_valid_create w x (IsDecimal a) s of
        Inl errors \<Rightarrow> (Inl (ValidationError errors), s)
      | Inr validated \<Rightarrow> TransactionViewSet_perform_create validated s)"

definition TransactionViewSet_destroy :: "nat \<Rightarrow> db \<Rightarrow> (exn + unit) \<times> db" where
  "TransactionViewSet_destroy k s =
     (case get_transaction k s of
        None \<Rightarrow> (Inl Http404, s)
      | Some r \<Rightarrow> TransactionViewSet_perform_destroy (instance_of r) s)"

text \<open>
  The viewset has no update action, and \<open>http_method_names\<close> leaves out \<open>put\<close> and
  \<open>patch\<close>. The serializer's \<open>update\<close> is reached only by a direct call of the
  serializer with an existing object: validation of the given amount, then \<open>update\<close>.
\<close>

definition http_method_names :: "string list" where
  "http_method_names = [''get'', ''post'', ''delete'', ''head'', ''options'']"

definition serializer_update_amount :: "nat \<Rightarrow> decimal \<Rightarrow> db \<Rightarrow> (exn + Transaction) \<times> db" where
  "serializer_update_amount k a s =
     (case get_transaction k s of
        None \<Rightarrow> (Inl Http404, s)
      | Some r \<Rightarrow>
          (case is_valid_update (instance_of r) None None (Some (IsDecimal a)) s of
             Inl errors \<Rightarrow> (Inl (ValidationError errors), s)
           | Inr vd \<Rightarrow> TransactionSerializer_update (instance_of r) vd s))"

definition TransactionViewSet_partial_update :: "nat \<Rightarrow> decimal \<Rightarrow> db \<Rightarrow> (exn + Transaction) \<times> db" where
  "TransactionViewSet_partial_update k a s =
     (if ''patch'' \<in> set http_method_names then serializer_update_amount k a s
      else (Inl MethodNotAllowed, s))"

subsection \<open>Wallets\<close>

text \<open>
  The balance is read-only in \<open>WalletSerializer\<close>: a wallet is created with the default
  balance 0, and an update changes the label only. The label is unique. Deleting a
  wallet deletes its transactions first (\<open>on_delete=CASCADE\<close>), with the \<open>post_delete\<close>
  receiver run for each of them, and then the wallet's row.
\<close>

definition WalletViewSet_create :: "string \<Rightarrow> db \<Rightarrow> (exn + Wallet) \<times> db" where
  "WalletViewSet_create l s =
     (if \<exists>w \<in> set (wallets s). label w = l
      then (Inl (ValidationError [(''label'', DuplicateLabel)]), s)
      else (let w = \<lparr>wallet_pk = fresh_pk (map wallet_pk (wallets s)), label = l, balance = 0\<rparr>
            in (Inr w, s\<lparr>wallets := wallets s @ [w]\<rparr>)))"

definition WalletViewSet_update :: "nat \<Rightarrow> string \<Rightarrow> db \<Rightarrow> (exn + Wallet) \<times> db" where
  "WalletViewSet_update k l s =
     (case get_wallet k s of
        None \<Rightarrow> (Inl Http404, s)
      | Some instance \<Rightarrow>
          (if \<exists>w \<in> set (wallets s). label w = l \<and> wallet_pk w \<noteq> k
           then (Inl (ValidationError [(''label'', DuplicateLabel)]), s)
           else (Inr (instance\<lparr>label := l\<rparr>),
                 s\<lparr>wallets := map (\<lambda>w. if wallet_pk w = k then instance\<lparr>label := l\<rparr> else w) (wallets s)\<rparr>)))"

definition Wallet_delete :: "nat \<Rightarrow> db \<Rightarrow> db" where
  "Wallet_delete k s =
     (let deleted = filter (\<lambda>r. tx_wallet r = k) (transactions s);
          s1 = s\<lparr>transactions := filter (\<lambda>r. tx_wallet r \<noteq> k) (transactions s)\<rparr>;
          s2 = fold (\<lambda>r. update_wallet_balance_on_transaction_delete (instance_of r)) deleted s1
      in s2\<lparr>wallets := filter (\<lambda>w. wallet_pk w \<noteq> k) (wallets s2)\<rparr>)"

definition WalletViewSet_destroy :: "nat \<Rightarrow> db \<Rightarrow> (exn + unit) \<times> db" where
  "WalletViewSet_destroy k s =
     (case get_wallet k s of
        None \<Rightarrow> (Inl Http404, s)
      | Some instance \<Rightarrow> atomic (\<lambda>s. (Inr (), Wallet_delete k s)) s)"

subsection \<open>The operations of the interface\<close>

datatype operation =
    CreateWallet string
  | UpdateWallet nat string
  | DeleteWallet nat
  | CreateTransaction nat string decimal
  | UpdateTransactionAmount nat decimal
  | DeleteTransaction nat

definition outcome :: "(exn + 'a) \<times> db \<Rightarrow> (exn + unit) \<times> db" where
  "outcome r = (case r of (Inl e, s) \<Rightarrow> (Inl e, s) | (Inr _, s) \<Rightarrow> (Inr (), s))"

fun handle :: "operation \<Rightarrow> db \<Rightarrow> (exn + unit) \<times> db" where
  "handle (CreateWallet l) s = outcome (WalletViewSet_create l s)"
| "handle (UpdateWallet k l) s = outcome (WalletViewSet_update k l s)"
| "handle (DeleteWallet k) s = WalletViewSet_destroy k s"
| "handle (CreateTransaction w x a) s = outcome (TransactionViewSet_create w x a s)"
| "handle (UpdateTransactionAmount k a) s = outcome (TransactionViewSet_partial_update k a s)"
| "handle (DeleteTransaction k) s = TransactionViewSet_destroy k s"

text \<open>The states that the operations of the interface reach from the empty database.\<close>

inductive reachable :: "db \<Rightarrow> bool" where
  initial: "reachable empty_db"
| step: "reachable s \<Longrightarrow> reachable (snd (handle op s))"

section \<open>Properties of a database state\<close>

definition transaction_sum :: "nat \<Rightarrow> db \<Rightarrow> rat" where
  "transaction_sum k s =
     sum_list (map (\<lambda>r. decimal_value (tx_amount r)) (filter (\<lambda>r. tx_wallet r = k) (transactions s)))"

definition balance_of :: "nat \<Rightarrow> db \<Rightarrow> rat option" where
  "balance_of k s = map_option balance (get_wallet k s)"

definition pk_distinct :: "db \<Rightarrow> bool" where
  "pk_distinct s \<longleftrightarrow> distinct (map wallet_pk (wallets s)) \<and> distinct (map tx_pk (transactions s))"

definition balance_consistent :: "db \<Rightarrow> bool" where
  "balance_consistent s \<longleftrightarrow> (\<forall>w \<in> set (wallets s). balance w = transaction_sum (wallet_pk w) s)"

definition balance_nonneg :: "db \<Rightarrow> bool" where
  "balance_nonneg s \<longleftrightarrow> (\<forall>w \<in> set (wallets s). 0 \<le> balance w)"

definition txid_distinct :: "db \<Rightarrow> bool" where
  "txid_distinct s \<longleftrightarrow> distinct (map tx_txid (transactions s))"

text \<open>Every transaction refers to a wallet of the table (the foreign key).\<close>

definition references_valid :: "db \<Rightarrow> bool" where
  "references_valid s \<longleftrightarrow> (\<forall>r \<in> set (transactions s). tx_wallet r \<in> wallet_pk ` set (wallets s))"

definition well_formed :: "db \<Rightarrow> bool" where
  "well_formed s \<longleftrightarrow> pk_distinct s \<and> references_valid s \<and> balance_consistent s"

section \<open>Example states\<close>

text \<open>The wallet of the tests: one wallet with balance 100.00 and no transaction.\<close>

definition test_wallet_db :: db where
  "test_wallet_db =
     \<lparr>wallets = [\<lparr>wallet_pk = 1, label = ''Test Wallet'', balance = 100\<rparr>], transactions = []\<rparr>"

text \<open>A wallet created through the interface, with one deposit of 100.00.\<close>

definition deposit_db :: db where
  "deposit_db =
     \<lparr>wallets = [\<lparr>wallet_pk = 1, label = ''Test Wallet'', balance = 100\<rparr>],
      transactions = [\<lparr>tx_pk = 1, tx_wallet = 1, tx_txid = ''deposit-tx-1'', tx_amount = Decimal 10000 (- 2)\<rparr>]\<rparr>"

text \<open>
  The state of the test of a refused deletion: a wallet that started with 50.00, a
  deposit of 100.00 and a withdrawal of 140.00, which leave the balance 10.00.
\<close>

definition withdrawn_db :: db where
  "withdrawn_db =
     \<lparr>wallets = [\<lparr>wallet_pk = 1, label = ''Test Wallet For Delete'', balance = 10\<rparr>],
      transactions =
        [\<lparr>tx_pk = 2, tx_wallet = 1, tx_txid = ''deposit-to-delete'', tx_amount = Decimal 10000 (- 2)\<rparr>,
         \<lparr>tx_pk = 3, tx_wallet = 1, tx_txid = ''withdrawal-after-deposit'', tx_amount = Decimal (- 14000) (- 2)\<rparr>]\<rparr>"

section \<open>Basic facts\<close>

lemma get_wallet_pk: "get_wallet k s = Some w \<Longrightarrow> wallet_pk w = k"
  by (auto simp: get_wallet_def find_Some_iff)

lemma get_wallet_mem: "get_wallet k s = Some w \<Longrightarrow> w \<in> set (wallets s)"
  by (auto simp: get_wallet_def find_Some_iff)

lemma get_transaction_pk: "get_transaction k s = Some r \<Longrightarrow> tx_pk r = k"
  by (auto simp: get_transaction_def find_Some_iff)

lemma get_transaction_mem: "get_transaction k s = Some r \<Longrightarrow> r \<in> set (transactions s)"
  by (auto simp: get_transaction_def find_Some_iff)

lemma atomic_Inl: "atomic f s = (Inl e, s') \<longleftrightarrow> (\<exists>s''. f s = (Inl e, s'')) \<and> s' = s"
  by (auto simp: atomic_def split: prod.splits sum.splits)

lemma atomic_Inr: "atomic f s = (Inr x, s') \<longleftrightarrow> f s = (Inr x, s')"
  by (auto simp: atomic_def split: prod.splits sum.splits)

subsection \<open>Validation\<close>

lemma clean_new_object:
  assumes "get_wallet (wallet t) s = Some w" and "not_pk t"
  shows "Transaction_clean t s =
           (if balance w + decimal_value (amount t) < 0 then Inl (''amount'', NegativeBalance) else Inr ())"
  using assms by (simp add: Transaction_clean_def prospective_balance_def)

lemma full_clean_Nil_iff:
  "full_clean t s = [] \<longleftrightarrow>
     clean_fields t s = [] \<and> Transaction_clean t s = Inr () \<and> validate_unique [] t s = []"
  by (auto simp: full_clean_def split: sum.splits)

lemma negative_balance_in_full_clean:
  "(''amount'', NegativeBalance) \<in> set (full_clean t s) \<longleftrightarrow>
     Transaction_clean t s = Inl (''amount'', NegativeBalance)"
  by (auto simp: full_clean_def clean_fields_def validate_unique_def DecimalValidator_def Let_def
           split: sum.splits option.splits if_splits)

lemma Transaction_save_Inl:
  "Transaction_save t s = (Inl e, s') \<longleftrightarrow>
     full_clean t s \<noteq> [] \<and> e = ValidationError (full_clean t s) \<and> s' = s"
  by (auto simp: Transaction_save_def split: list.splits prod.splits)

lemma Transaction_save_Inr:
  "Transaction_save t s = (Inr t', s') \<longleftrightarrow> full_clean t s = [] \<and> Model_save t s = (t', s')"
  by (auto simp: Transaction_save_def split: list.splits prod.splits)

lemma TransactionSerializer_create_Inl:
  "TransactionSerializer_create t s = (Inl e, s') \<longleftrightarrow>
     full_clean t s \<noteq> [] \<and> e = ValidationError (full_clean t s) \<and> s' = s"
  by (auto simp: TransactionSerializer_create_def Transaction_save_Inl split: list.splits)

lemma TransactionSerializer_create_Inr:
  "TransactionSerializer_create t s = (Inr t', s') \<longleftrightarrow> full_clean t s = [] \<and> Model_save t s = (t', s')"
  by (auto simp: TransactionSerializer_create_def Transaction_save_Inr split: list.splits)

lemma is_valid_create_Inr:
  "is_valid_create k x v s = Inr t \<longleftrightarrow>
     (\<exists>w a. get_wallet k s = Some w \<and> (\<forall>r \<in> set (transactions s). tx_txid r \<noteq> x)
        \<and> validate_amount v = Inr a \<and> t = \<lparr>pk = None, wallet = k, txid = x, amount = a\<rparr>)"
  by (auto simp: is_valid_create_def validate_wallet_def validate_txid_def errors_of_def
           dest: get_wallet_pk split: sum.splits option.splits if_splits)

lemma validate_amount_IsDecimal:
  "validate_amount (IsDecimal a) = (if exponent a < - 18 then Inl (''amount'', PrecisionExceeded) else Inr a)"
  by (simp add: validate_amount_def)

text \<open>The outcome of \<open>create\<close> for a request that passes the checks of the serializer's fields.\<close>

lemma create_after_is_valid:
  assumes "is_valid_create k x (IsDecimal a) s = Inr t"
  shows "TransactionViewSet_create k x a s =
           (if full_clean t s = [] then (Inr (fst (Model_save t s)), snd (Model_save t s))
            else (Inl (ValidationError (full_clean t s)), s))"
  using assms
  by (auto simp: TransactionViewSet_create_def TransactionViewSet_perform_create_def atomic_def
        TransactionSerializer_create_def Transaction_save_def split: list.splits prod.splits)

section \<open>The balance validator on creation\<close>

text \<open>
  C4. For a new transaction on an existing wallet with balance \<open>B\<close> and amount \<open>a\<close>, the
  balance validator \<open>Transaction.clean\<close> rejects with \<open>NegativeBalance\<close> under the key
  \<open>amount\<close> exactly when \<open>B + a < 0\<close>, and accepts otherwise. A create request that
  passes the txid and precision checks is rejected with \<open>NegativeBalance\<close> exactly when
  \<open>B + a < 0\<close>. A zero amount is accepted by the validator on a wallet whose balance is not
  negative.
\<close>

theorem create_rejected_iff_negative_balance:
  assumes "get_wallet k s = Some w"
  shows "(Transaction_clean \<lparr>pk = None, wallet = k, txid = x, amount = a\<rparr> s = Inl (''amount'', NegativeBalance)
            \<longleftrightarrow> balance w + decimal_value a < 0)
       \<and> (Transaction_clean \<lparr>pk = None, wallet = k, txid = x, amount = a\<rparr> s = Inr ()
            \<longleftrightarrow> 0 \<le> balance w + decimal_value a)
       \<and> (validate_txid None x s = Inr x \<and> validate_amount (IsDecimal a) = Inr a \<longrightarrow>
            ((\<exists>es. fst (TransactionViewSet_create k x a s) = Inl (ValidationError es)
                   \<and> (''amount'', NegativeBalance) \<in> set es)
               \<longleftrightarrow> balance w + decimal_value a < 0))
       \<and> (decimal_value a = 0 \<and> 0 \<le> balance w \<longrightarrow>
            Transaction_clean \<lparr>pk = None, wallet = k, txid = x, amount = a\<rparr> s = Inr ())"
proof -
  let ?t = "\<lparr>pk = None, wallet = k, txid = x, amount = a\<rparr>"
  have clean: "Transaction_clean ?t s =
      (if balance w + decimal_value a < 0 then Inl (''amount'', NegativeBalance) else Inr ())"
    using assms clean_new_object [of ?t s w] by (simp add: not_pk_def)
  have request: "(\<exists>es. fst (TransactionViewSet_create k x a s) = Inl (ValidationError es)
                   \<and> (''amount'', NegativeBalance) \<in> set es)
               \<longleftrightarrow> balance w + decimal_value a < 0"
    if "validate_txid None x s = Inr x" and "validate_amount (IsDecimal a) = Inr a"
  proof -
    have "is_valid_create k x (IsDecimal a) s = Inr ?t"
      using that assms
      by (auto simp: is_valid_create_Inr validate_txid_def split: if_splits)
    then have "TransactionViewSet_create k x a s =
           (if full_clean ?t s = [] then (Inr (fst (Model_save ?t s)), snd (Model_save ?t s))
            else (Inl (ValidationError (full_clean ?t s)), s))"
      by (rule create_after_is_valid)
    then show ?thesis
      using negative_balance_in_full_clean [of ?t s] clean
      by (auto split: if_splits)
  qed
  show ?thesis
    using clean request by (auto split: if_splits)
qed

theorem create_rejected_iff_negative_balance_witness:
  "get_wallet 1 test_wallet_db = Some \<lparr>wallet_pk = 1, label = ''Test Wallet'', balance = 100\<rparr>
   \<and> validate_txid None ''overdraft-tx-1'' test_wallet_db = Inr ''overdraft-tx-1''
   \<and> validate_amount (IsDecimal (Decimal (- 1010) (- 1))) = Inr (Decimal (- 1010) (- 1))
   \<and> Transaction_clean \<lparr>pk = None, wallet = 1, txid = ''overdraft-tx-1'', amount = Decimal (- 1010) (- 1)\<rparr>
        test_wallet_db = Inl (''amount'', NegativeBalance)
   \<and> (\<exists>es. fst (TransactionViewSet_create 1 ''overdraft-tx-1'' (Decimal (- 1010) (- 1)) test_wallet_db)
              = Inl (ValidationError es) \<and> (''amount'', NegativeBalance) \<in> set es)
   \<and> decimal_value (Decimal 0 (- 2)) = 0
   \<and> Transaction_clean \<lparr>pk = None, wallet = 1, txid = ''zero'', amount = Decimal 0 (- 2)\<rparr>
        test_wallet_db = Inr ()"
proof -
  have w: "get_wallet 1 test_wallet_db = Some \<lparr>wallet_pk = 1, label = ''Test Wallet'', balance = 100\<rparr>"
    by (simp add: get_wallet_def test_wallet_db_def)
  have x: "validate_txid None ''overdraft-tx-1'' test_wallet_db = Inr ''overdraft-tx-1''"
    by (simp add: validate_txid_def test_wallet_db_def)
  have a: "validate_amount (IsDecimal (Decimal (- 1010) (- 1))) = Inr (Decimal (- 1010) (- 1))"
    by (simp add: validate_amount_def)
  have v: "decimal_value (Decimal (- 1010) (- 1)) = - 101" "decimal_value (Decimal 0 (- 2)) = 0"
    by (simp_all add: decimal_value_def)
  show ?thesis
    using create_rejected_iff_negative_balance [OF w, of "''overdraft-tx-1''" "Decimal (- 1010) (- 1)"]
      create_rejected_iff_negative_balance [OF w, of "''zero''" "Decimal 0 (- 2)"]
      w x a v
    by simp
qed


subsection \<open>Balances after a write\<close>

lemma transactions_add_to_balance [simp]: "transactions (add_to_balance k a s) = transactions s"
  by (simp add: add_to_balance_def)




lemma get_wallet_transactions_update [simp]:
  "get_wallet j (s\<lparr>transactions := ts\<rparr>) = get_wallet j s"
  by (simp add: get_wallet_def)

lemma balance_of_transactions_update [simp]:
  "balance_of j (s\<lparr>transactions := ts\<rparr>) = balance_of j s"
  by (simp add: balance_of_def)

text \<open>What the inherited \<open>save\<close> and the receiver do for a new object.\<close>

lemma Model_save_new:
  assumes "pk t = None"
  shows "Model_save t s =
           (t\<lparr>pk := Some (fresh_pk (map tx_pk (transactions s)))\<rparr>,
            add_to_balance (wallet t) (decimal_value (amount t))
              (s\<lparr>transactions := transactions s @ [row_of (fresh_pk (map tx_pk (transactions s))) t]\<rparr>))"
  using assms by (simp add: Model_save_def update_wallet_balance_on_transaction_save_def Let_def)

text \<open>What the inherited \<open>save\<close> and the receiver do for an object whose row exists.\<close>

lemma Model_save_existing:
  assumes "pk t = Some k" and "\<exists>r \<in> set (transactions s). tx_pk r = k"
  shows "Model_save t s =
           (t, s\<lparr>transactions := map (\<lambda>r. if tx_pk r = k then row_of k t else r) (transactions s)\<rparr>)"
  using assms by (simp add: Model_save_def update_wallet_balance_on_transaction_save_def)

lemma Model_delete_Some:
  assumes "pk t = Some k"
  shows "Model_delete t s =
           (Inr (), add_to_balance (wallet t) (- decimal_value (amount t))
                      (s\<lparr>transactions := filter (\<lambda>r. tx_pk r \<noteq> k) (transactions s)\<rparr>))"
  using assms by (simp add: Model_delete_def update_wallet_balance_on_transaction_delete_def)

lemma destroy_existing:
  assumes "get_transaction k s = Some r" and "get_wallet (tx_wallet r) s = Some w"
  shows "TransactionViewSet_destroy k s =
           (if balance w - decimal_value (tx_amount r) < 0
            then (Inl (ValidationError [(''non_field_errors'', NegativeBalance)]), s)
            else (Inr (), add_to_balance (tx_wallet r) (- decimal_value (tx_amount r))
                            (s\<lparr>transactions := filter (\<lambda>r'. tx_pk r' \<noteq> k) (transactions s)\<rparr>)))"
  using assms get_transaction_pk [OF assms(1)]
  by (simp add: TransactionViewSet_destroy_def TransactionViewSet_perform_destroy_def
        Transaction_delete_def atomic_def instance_of_def Model_delete_Some Let_def)

lemma get_transaction_filter_pk [simp]:
  "get_transaction k (s\<lparr>transactions := filter (\<lambda>r. tx_pk r \<noteq> k) (transactions s)\<rparr>) = None"
  by (simp add: get_transaction_def find_None_iff)

lemma get_transaction_add_to_balance [simp]:
  "get_transaction k (add_to_balance j a s) = get_transaction k s"
  by (simp add: get_transaction_def)

section \<open>Deleting a transaction\<close>




section \<open>Validation before every save\<close>

lemma wallet_missing_in_full_clean:
  "get_wallet (wallet t) s = None \<Longrightarrow> (''wallet'', WalletNotFound) \<in> set (full_clean t s)"
  by (simp add: full_clean_def clean_fields_def)

lemma Transaction_clean_Inr:
  "Transaction_clean t s = Inr () \<longleftrightarrow>
     (\<exists>w b. get_wallet (wallet t) s = Some w \<and> prospective_balance t w s = Inr b \<and> 0 \<le> b)"
  by (auto simp: Transaction_clean_def split: option.splits sum.splits)

lemma Transaction_clean_negative:
  "get_wallet (wallet t) s = Some w \<Longrightarrow> prospective_balance t w s = Inr b \<Longrightarrow> b < 0 \<Longrightarrow>
     Transaction_clean t s = Inl (''amount'', NegativeBalance)"
  by (simp add: Transaction_clean_def)

text \<open>
  C10. \<open>Transaction.save\<close> writes only after \<open>full_clean\<close> has passed: a save that returns
  has found the wallet and a prospective balance that is not negative; a save of an
  object whose wallet is missing, or whose prospective balance is negative, raises the
  validation errors, \<open>WalletNotFound\<close> or \<open>NegativeBalance\<close> among them, and leaves the
  database as it was.
\<close>

theorem save_validates_first:
  "(Transaction_save t s = (Inr t', s') \<longrightarrow>
      full_clean t s = []
      \<and> (\<exists>w b. get_wallet (wallet t) s = Some w \<and> prospective_balance t w s = Inr b \<and> 0 \<le> b))
   \<and> (get_wallet (wallet t) s = None \<longrightarrow>
        (\<exists>es. Transaction_save t s = (Inl (ValidationError es), s) \<and> (''wallet'', WalletNotFound) \<in> set es))
   \<and> (get_wallet (wallet t) s = Some w \<and> prospective_balance t w s = Inr b \<and> b < 0 \<longrightarrow>
        (\<exists>es. Transaction_save t s = (Inl (ValidationError es), s) \<and> (''amount'', NegativeBalance) \<in> set es))"
proof (intro conjI impI)
  assume "Transaction_save t s = (Inr t', s')"
  then have ok: "full_clean t s = []"
    by (simp add: Transaction_save_Inr)
  then show "full_clean t s = []" .
  from ok have "Transaction_clean t s = Inr ()"
    by (simp add: full_clean_Nil_iff)
  then show "\<exists>w b. get_wallet (wallet t) s = Some w \<and> prospective_balance t w s = Inr b \<and> 0 \<le> b"
    by (simp add: Transaction_clean_Inr)
next
  assume "get_wallet (wallet t) s = None"
  then have "(''wallet'', WalletNotFound) \<in> set (full_clean t s)"
    by (rule wallet_missing_in_full_clean)
  then show "\<exists>es. Transaction_save t s = (Inl (ValidationError es), s) \<and> (''wallet'', WalletNotFound) \<in> set es"
    by (auto simp: Transaction_save_def split: list.splits)
next
  assume "get_wallet (wallet t) s = Some w \<and> prospective_balance t w s = Inr b \<and> b < 0"
  then have "Transaction_clean t s = Inl (''amount'', NegativeBalance)"
    by (simp add: Transaction_clean_negative)
  then have "(''amount'', NegativeBalance) \<in> set (full_clean t s)"
    by (simp add: negative_balance_in_full_clean)
  then show "\<exists>es. Transaction_save t s = (Inl (ValidationError es), s) \<and> (''amount'', NegativeBalance) \<in> set es"
    by (auto simp: Transaction_save_def split: list.splits)
qed

theorem save_validates_first_witness:
  "Transaction_save \<lparr>pk = None, wallet = 1, txid = ''deposit-tx-1'', amount = Decimal 500 (- 1)\<rparr> test_wallet_db
     = (Inr \<lparr>pk = Some 1, wallet = 1, txid = ''deposit-tx-1'', amount = Decimal 500 (- 1)\<rparr>,
        \<lparr>wallets = [\<lparr>wallet_pk = 1, label = ''Test Wallet'', balance = 150\<rparr>],
         transactions = [\<lparr>tx_pk = 1, tx_wallet = 1, tx_txid = ''deposit-tx-1'', tx_amount = Decimal 500 (- 1)\<rparr>]\<rparr>)
   \<and> full_clean \<lparr>pk = None, wallet = 1, txid = ''deposit-tx-1'', amount = Decimal 500 (- 1)\<rparr> test_wallet_db = []
   \<and> get_wallet 7 test_wallet_db = None
   \<and> (\<exists>es. Transaction_save \<lparr>pk = None, wallet = 7, txid = ''tx-for-ghost-wallet'', amount = Decimal 100 (- 1)\<rparr> test_wallet_db
              = (Inl (ValidationError es), test_wallet_db) \<and> (''wallet'', WalletNotFound) \<in> set es)
   \<and> get_wallet 1 test_wallet_db = Some \<lparr>wallet_pk = 1, label = ''Test Wallet'', balance = 100\<rparr>
   \<and> prospective_balance \<lparr>pk = None, wallet = 1, txid = ''overdraft-tx-1'', amount = Decimal (- 1010) (- 1)\<rparr>
        \<lparr>wallet_pk = 1, label = ''Test Wallet'', balance = 100\<rparr> test_wallet_db = Inr (- 1)
   \<and> (\<exists>es. Transaction_save \<lparr>pk = None, wallet = 1, txid = ''overdraft-tx-1'', amount = Decimal (- 1010) (- 1)\<rparr> test_wallet_db
              = (Inl (ValidationError es), test_wallet_db) \<and> (''amount'', NegativeBalance) \<in> set es)"
proof -
  let ?dep = "\<lparr>pk = None, wallet = 1, txid = ''deposit-tx-1'', amount = Decimal 500 (- 1)\<rparr>"
  let ?s' = "\<lparr>wallets = [\<lparr>wallet_pk = 1, label = ''Test Wallet'', balance = 150\<rparr>],
         transactions = [\<lparr>tx_pk = 1, tx_wallet = 1, tx_txid = ''deposit-tx-1'', tx_amount = Decimal 500 (- 1)\<rparr>]\<rparr>"
  have w: "get_wallet 1 test_wallet_db = Some \<lparr>wallet_pk = 1, label = ''Test Wallet'', balance = 100\<rparr>"
    and g: "get_wallet 7 test_wallet_db = None"
    by (simp_all add: get_wallet_def test_wallet_db_def)
  have fc: "full_clean ?dep test_wallet_db = []"
    using w
    by (simp add: full_clean_Nil_iff clean_fields_def DecimalValidator_def len_digits.simps
          clean_new_object not_pk_def decimal_value_def validate_unique_def test_wallet_db_def)
  have ms: "Model_save ?dep test_wallet_db = (?dep\<lparr>pk := Some 1\<rparr>, ?s')"
    by (simp add: Model_save_new fresh_pk_def row_of_def add_to_balance_def decimal_value_def
          test_wallet_db_def)
  have sv: "Transaction_save ?dep test_wallet_db = (Inr (?dep\<lparr>pk := Some 1\<rparr>), ?s')"
    using fc ms by (simp add: Transaction_save_Inr)
  have p: "prospective_balance \<lparr>pk = None, wallet = 1, txid = ''overdraft-tx-1'', amount = Decimal (- 1010) (- 1)\<rparr>
        \<lparr>wallet_pk = 1, label = ''Test Wallet'', balance = 100\<rparr> test_wallet_db = Inr (- 1)"
    by (simp add: prospective_balance_def not_pk_def decimal_value_def)
  show ?thesis
    using save_validates_first [of ?dep test_wallet_db "?dep\<lparr>pk := Some 1\<rparr>" ?s']
      save_validates_first [of "\<lparr>pk = None, wallet = 7, txid = ''tx-for-ghost-wallet'', amount = Decimal 100 (- 1)\<rparr>" test_wallet_db]
      save_validates_first [of "\<lparr>pk = None, wallet = 1, txid = ''overdraft-tx-1'', amount = Decimal (- 1010) (- 1)\<rparr>"
         test_wallet_db _ _ "\<lparr>wallet_pk = 1, label = ''Test Wallet'', balance = 100\<rparr>" "- 1"]
      w g sv p
    by simp
qed


section \<open>The precision guard\<close>

lemma is_valid_create_errors:
  "is_valid_create k x v s = Inl es \<Longrightarrow>
     es = errors_of (validate_wallet k s) @ errors_of (validate_txid None x s) @ errors_of (validate_amount v)"
  by (auto simp: is_valid_create_def errors_of_def split: sum.splits)







section \<open>Failed operations\<close>

lemma TransactionSerializer_update_Inl:
  "TransactionSerializer_update i vd s = (Inl e, s') \<Longrightarrow> s' = s"
  by (auto simp: TransactionSerializer_update_def Let_def Transaction_save_Inl split: list.splits)

lemma TransactionViewSet_create_Inl:
  "TransactionViewSet_create k x a s = (Inl e, s') \<Longrightarrow> s' = s"
  by (auto simp: TransactionViewSet_create_def TransactionViewSet_perform_create_def atomic_Inl
           split: sum.splits)

lemma serializer_update_amount_Inl:
  "serializer_update_amount k a s = (Inl e, s') \<Longrightarrow> s' = s"
  by (auto simp: serializer_update_amount_def dest: TransactionSerializer_update_Inl
           split: option.splits sum.splits)

lemma TransactionViewSet_partial_update_Inl:
  "TransactionViewSet_partial_update k a s = (Inl e, s') \<Longrightarrow> s' = s"
  by (auto simp: TransactionViewSet_partial_update_def dest: serializer_update_amount_Inl
           split: if_splits)

lemma TransactionViewSet_destroy_Inl:
  "TransactionViewSet_destroy k s = (Inl e, s') \<Longrightarrow> s' = s"
  by (auto simp: TransactionViewSet_destroy_def TransactionViewSet_perform_destroy_def atomic_Inl
           split: option.splits)

text \<open>
  The body of \<open>Transaction.delete\<close> raises before it writes, so that the failure leaves
  the database as it was even without the roll-back of \<open>atomic\<close>.
\<close>

lemma Model_delete_Inl: "Model_delete t s = (Inl e, s') \<Longrightarrow> s' = s"
  by (auto simp: Model_delete_def split: option.splits)

lemma WalletViewSet_Inl:
  "WalletViewSet_create l s = (Inl e, s') \<Longrightarrow> s' = s"
  "WalletViewSet_update k l s = (Inl e, s') \<Longrightarrow> s' = s"
  "WalletViewSet_destroy k s = (Inl e, s') \<Longrightarrow> s' = s"
  by (auto simp: WalletViewSet_create_def WalletViewSet_update_def WalletViewSet_destroy_def
        atomic_def Let_def split: if_splits option.splits)

lemma outcome_Inl: "outcome r = (Inl e, s') \<longleftrightarrow> r = (Inl e, s')"
  by (auto simp: outcome_def split: prod.splits sum.splits)

lemma handle_Inl: "handle op s = (Inl e, s') \<Longrightarrow> s' = s"
  by (cases op)
     (auto simp: outcome_Inl
           dest: WalletViewSet_Inl TransactionViewSet_create_Inl TransactionViewSet_partial_update_Inl
                 TransactionViewSet_destroy_Inl)

text \<open>
  C6. When creating a transaction, updating its amount through the serializer or deleting
  it fails, with whatever error, the database after the call is the database before it:
  the same transaction rows and the same wallet rows. The serializer's \<open>create\<close> and
  \<open>update\<close> themselves, without the surrounding \<open>atomic\<close>, raise only before they write.
\<close>

theorem failure_changes_nothing:
  "(TransactionViewSet_create k x a s = (Inl e, s') \<longrightarrow> s' = s)
   \<and> (serializer_update_amount j a s = (Inl e, s') \<longrightarrow> s' = s)
   \<and> (TransactionViewSet_destroy j s = (Inl e, s') \<longrightarrow> s' = s)
   \<and> (TransactionSerializer_create t s = (Inl e, s') \<longrightarrow> s' = s)
   \<and> (TransactionSerializer_update t vd s = (Inl e, s') \<longrightarrow> s' = s)
   \<and> (handle op s = (Inl e, s') \<longrightarrow> s' = s)"
  using TransactionViewSet_create_Inl serializer_update_amount_Inl TransactionViewSet_destroy_Inl
    TransactionSerializer_update_Inl handle_Inl
  by (auto simp: TransactionSerializer_create_Inl)

theorem failure_changes_nothing_witness:
  "TransactionViewSet_create 1 ''overdraft-tx-1'' (Decimal (- 1010) (- 1)) test_wallet_db
     = (Inl (ValidationError [(''amount'', NegativeBalance)]), test_wallet_db)
   \<and> serializer_update_amount 1 (Decimal (- 1) 0) deposit_db
     = (Inl (ValidationError [(''amount'', NegativeBalance)]), deposit_db)
   \<and> TransactionViewSet_destroy 2 withdrawn_db
     = (Inl (ValidationError [(''non_field_errors'', NegativeBalance)]), withdrawn_db)
   \<and> TransactionSerializer_create \<lparr>pk = None, wallet = 7, txid = ''t'', amount = Decimal 1 0\<rparr> empty_db
     = (Inl (ValidationError [(''wallet'', WalletNotFound), (''wallet'', WalletNotFound)]), empty_db)
   \<and> TransactionSerializer_update \<lparr>pk = Some 5, wallet = 7, txid = ''t'', amount = Decimal 1 0\<rparr>
        \<lparr>vd_wallet = None, vd_txid = None, vd_amount = None\<rparr> empty_db
     = (Inl (ValidationError [(''wallet'', WalletNotFound), (''wallet'', WalletNotFound)]), empty_db)
   \<and> handle (DeleteTransaction 9) test_wallet_db = (Inl Http404, test_wallet_db)"
proof -
  have c: "\<exists>e s'. TransactionViewSet_create 1 ''overdraft-tx-1'' (Decimal (- 1010) (- 1)) test_wallet_db = (Inl e, s')
              \<and> e = ValidationError [(''amount'', NegativeBalance)]"
    by (simp add: TransactionViewSet_create_def is_valid_create_def validate_wallet_def get_wallet_def
          validate_txid_def validate_amount_def test_wallet_db_def TransactionViewSet_perform_create_def
          atomic_def TransactionSerializer_create_def full_clean_def clean_fields_def DecimalValidator_def
          len_digits.simps Transaction_clean_def prospective_balance_def not_pk_def decimal_value_def
          validate_unique_def)
  have u: "\<exists>e s'. serializer_update_amount 1 (Decimal (- 1) 0) deposit_db = (Inl e, s')
              \<and> e = ValidationError [(''amount'', NegativeBalance)]"
    by (simp add: serializer_update_amount_def get_transaction_def deposit_db_def is_valid_update_def
          validate_amount_def errors_of_def instance_of_def TransactionSerializer_update_def
          full_clean_def clean_fields_def get_wallet_def DecimalValidator_def len_digits.simps
          Transaction_clean_def prospective_balance_def not_pk_def decimal_value_def validate_unique_def)
  have d: "\<exists>e s'. TransactionViewSet_destroy 2 withdrawn_db = (Inl e, s')
              \<and> e = ValidationError [(''non_field_errors'', NegativeBalance)]"
    by (simp add: TransactionViewSet_destroy_def get_transaction_def withdrawn_db_def
          TransactionViewSet_perform_destroy_def atomic_def Transaction_delete_def instance_of_def
          get_wallet_def decimal_value_def)
  have sc: "\<exists>e s'. TransactionSerializer_create \<lparr>pk = None, wallet = 7, txid = ''t'', amount = Decimal 1 0\<rparr> empty_db = (Inl e, s')
              \<and> e = ValidationError [(''wallet'', WalletNotFound), (''wallet'', WalletNotFound)]"
    by (simp add: TransactionSerializer_create_def full_clean_def clean_fields_def get_wallet_def
          empty_db_def DecimalValidator_def len_digits.simps Transaction_clean_def validate_unique_def)
  have su: "\<exists>e s'. TransactionSerializer_update \<lparr>pk = Some 5, wallet = 7, txid = ''t'', amount = Decimal 1 0\<rparr>
        \<lparr>vd_wallet = None, vd_txid = None, vd_amount = None\<rparr> empty_db = (Inl e, s')
              \<and> e = ValidationError [(''wallet'', WalletNotFound), (''wallet'', WalletNotFound)]"
    by (simp add: TransactionSerializer_update_def full_clean_def clean_fields_def get_wallet_def
          empty_db_def DecimalValidator_def len_digits.simps Transaction_clean_def validate_unique_def)
  have h: "\<exists>e s'. handle (DeleteTransaction 9) test_wallet_db = (Inl e, s') \<and> e = Http404"
    by (simp add: TransactionViewSet_destroy_def get_transaction_def test_wallet_db_def)
  show ?thesis
    using c u d sc su h failure_changes_nothing
    by metis
qed


section \<open>Uniqueness of txid\<close>

lemma is_valid_create_duplicate:
  assumes "\<exists>r \<in> set (transactions s). tx_txid r = x"
  shows "\<exists>es. is_valid_create k x v s = Inl es \<and> (''txid'', DuplicateTxid) \<in> set es"
proof -
  have txid: "validate_txid None x s = Inl (''txid'', DuplicateTxid)"
    using assms by (simp add: validate_txid_def)
  then obtain es where es: "is_valid_create k x v s = Inl es"
    using assms by (cases "is_valid_create k x v s") (auto simp: is_valid_create_Inr)
  have "(''txid'', DuplicateTxid) \<in> set es"
    using is_valid_create_errors [OF es] txid by (simp add: errors_of_def)
  with es show ?thesis by blast
qed

lemma create_duplicate:
  assumes "\<exists>r \<in> set (transactions s). tx_txid r = x"
  shows "\<exists>es. TransactionViewSet_create k x a s = (Inl (ValidationError es), s)
              \<and> (''txid'', DuplicateTxid) \<in> set es"
  using is_valid_create_duplicate [OF assms, of k "IsDecimal a"]
  by (auto simp: TransactionViewSet_create_def)

text \<open>A committed create has stored a row with the txid of the request.\<close>

lemma create_Inr:
  assumes "TransactionViewSet_create k x a s = (Inr t, s')"
  shows "(\<forall>r \<in> set (transactions s). tx_txid r \<noteq> x)
         \<and> s' = add_to_balance k (decimal_value a)
                  (s\<lparr>transactions := transactions s
                        @ [\<lparr>tx_pk = fresh_pk (map tx_pk (transactions s)), tx_wallet = k, tx_txid = x, tx_amount = a\<rparr>]\<rparr>)
         \<and> full_clean \<lparr>pk = None, wallet = k, txid = x, amount = a\<rparr> s = []"
proof -
  obtain v where v: "is_valid_create k x (IsDecimal a) s = Inr v"
    using assms by (cases "is_valid_create k x (IsDecimal a) s") (auto simp: TransactionViewSet_create_def)
  then have fresh: "\<forall>r \<in> set (transactions s). tx_txid r \<noteq> x"
    and t: "v = \<lparr>pk = None, wallet = k, txid = x, amount = a\<rparr>"
    by (auto simp: is_valid_create_Inr validate_amount_IsDecimal split: if_splits)
  have "full_clean v s = [] \<and> s' = snd (Model_save v s)"
    using assms create_after_is_valid [OF v] by (auto split: if_splits)
  then show ?thesis
    using fresh by (simp add: t Model_save_new row_of_def)
qed

lemma create_txid_distinct:
  assumes "txid_distinct s"
  shows "txid_distinct (snd (TransactionViewSet_create k x a s))"
proof (cases "TransactionViewSet_create k x a s")
  case (Pair r s')
  show ?thesis
  proof (cases r)
    case (Inl e)
    with Pair assms show ?thesis
      by (auto dest: TransactionViewSet_create_Inl)
  next
    case (Inr t)
    with Pair assms create_Inr [of k x a s t s'] show ?thesis
      by (auto simp: txid_distinct_def)
  qed
qed

lemma destroy_transactions:
  "transactions (snd (TransactionViewSet_destroy k s)) = transactions s
   \<or> transactions (snd (TransactionViewSet_destroy k s)) = filter (\<lambda>r. tx_pk r \<noteq> k) (transactions s)"
  by (auto simp: TransactionViewSet_destroy_def TransactionViewSet_perform_destroy_def atomic_def
        Transaction_delete_def Model_delete_def instance_of_def Let_def
        update_wallet_balance_on_transaction_delete_def
        split: option.splits dest: get_transaction_pk)

lemma destroy_txid_distinct:
  assumes "txid_distinct s"
  shows "txid_distinct (snd (TransactionViewSet_destroy k s))"
  using assms destroy_transactions [of k s]
  by (auto simp: txid_distinct_def distinct_map_filter)

lemma transactions_fold_delete_receiver [simp]:
  "transactions (fold (\<lambda>r. update_wallet_balance_on_transaction_delete (instance_of r)) rs s) = transactions s"
  by (induction rs arbitrary: s) (simp_all add: update_wallet_balance_on_transaction_delete_def)

lemma transactions_Wallet_delete:
  "transactions (Wallet_delete k s) = filter (\<lambda>r. tx_wallet r \<noteq> k) (transactions s)"
  by (simp add: Wallet_delete_def Let_def)

lemma wallet_views_transactions:
  "transactions (snd (WalletViewSet_create l s)) = transactions s"
  "transactions (snd (WalletViewSet_update k l s)) = transactions s"
  "transactions (snd (WalletViewSet_destroy k s)) = transactions s
   \<or> transactions (snd (WalletViewSet_destroy k s)) = filter (\<lambda>r. tx_wallet r \<noteq> k) (transactions s)"
  by (auto simp: WalletViewSet_create_def WalletViewSet_update_def WalletViewSet_destroy_def
        atomic_def Let_def transactions_Wallet_delete split: option.splits)

lemma snd_outcome [simp]: "snd (outcome r) = snd r"
  by (auto simp: outcome_def split: prod.splits sum.splits)

lemma partial_update_refused:
  "TransactionViewSet_partial_update k a s = (Inl MethodNotAllowed, s)"
  by (simp add: TransactionViewSet_partial_update_def http_method_names_def)

lemma handle_txid_distinct:
  assumes "txid_distinct s"
  shows "txid_distinct (snd (handle op s))"
proof (cases op)
  case (CreateWallet l)
  then show ?thesis using assms by (simp add: txid_distinct_def wallet_views_transactions)
next
  case (UpdateWallet k l)
  then show ?thesis using assms by (simp add: txid_distinct_def wallet_views_transactions)
next
  case (DeleteWallet k)
  then show ?thesis
    using assms wallet_views_transactions(3) [of k s]
    by (auto simp: txid_distinct_def distinct_map_filter)
next
  case (CreateTransaction w x a)
  then show ?thesis using assms by (simp add: create_txid_distinct)
next
  case (UpdateTransactionAmount k a)
  then show ?thesis using assms by (simp add: partial_update_refused)
next
  case (DeleteTransaction k)
  then show ?thesis using assms by (simp add: destroy_txid_distinct)
qed

lemma reachable_txid_distinct: "reachable s \<Longrightarrow> txid_distinct s"
proof (induction rule: reachable.induct)
  case initial
  show ?case by (simp add: txid_distinct_def empty_db_def)
next
  case (step s op)
  then show ?case by (simp add: handle_txid_distinct)
qed

text \<open>
  C8. A create request whose txid is the txid of a stored transaction is rejected with
  \<open>DuplicateTxid\<close> under the key \<open>txid\<close>, and the database stays as it was. After a
  committed create, the same request again, or any request with the same txid, is
  rejected in this way. Every operation of the interface keeps the txids of the stored
  transactions pairwise distinct, so they are distinct in every state the interface
  reaches.
\<close>

theorem duplicate_txid_rejected:
  "((\<exists>r \<in> set (transactions s). tx_txid r = x) \<longrightarrow>
      (\<exists>es. TransactionViewSet_create k x a s = (Inl (ValidationError es), s)
            \<and> (''txid'', DuplicateTxid) \<in> set es))
   \<and> (TransactionViewSet_create k x a s = (Inr t, s') \<longrightarrow>
        (\<exists>es. TransactionViewSet_create k' x a' s' = (Inl (ValidationError es), s')
              \<and> (''txid'', DuplicateTxid) \<in> set es))
   \<and> (txid_distinct s \<longrightarrow> txid_distinct (snd (handle op s)))
   \<and> (reachable s \<longrightarrow> txid_distinct s)"
proof (intro conjI impI)
  assume "\<exists>r \<in> set (transactions s). tx_txid r = x"
  then show "\<exists>es. TransactionViewSet_create k x a s = (Inl (ValidationError es), s)
            \<and> (''txid'', DuplicateTxid) \<in> set es"
    by (rule create_duplicate)
next
  assume "TransactionViewSet_create k x a s = (Inr t, s')"
  then have "\<exists>r \<in> set (transactions s'). tx_txid r = x"
    using create_Inr [of k x a s t s'] by simp
  then show "\<exists>es. TransactionViewSet_create k' x a' s' = (Inl (ValidationError es), s')
              \<and> (''txid'', DuplicateTxid) \<in> set es"
    by (rule create_duplicate)
next
  assume "txid_distinct s"
  then show "txid_distinct (snd (handle op s))"
    by (rule handle_txid_distinct)
next
  assume "reachable s"
  then show "txid_distinct s"
    by (rule reachable_txid_distinct)
qed

theorem duplicate_txid_rejected_witness:
  "(\<exists>r \<in> set (transactions deposit_db). tx_txid r = ''deposit-tx-1'')
   \<and> (\<exists>es. TransactionViewSet_create 1 ''deposit-tx-1'' (Decimal 200 (- 1)) deposit_db
              = (Inl (ValidationError es), deposit_db) \<and> (''txid'', DuplicateTxid) \<in> set es)
   \<and> TransactionViewSet_create 1 ''unique-txid'' (Decimal 100 (- 1)) test_wallet_db
        = (Inr \<lparr>pk = Some 1, wallet = 1, txid = ''unique-txid'', amount = Decimal 100 (- 1)\<rparr>,
           \<lparr>wallets = [\<lparr>wallet_pk = 1, label = ''Test Wallet'', balance = 110\<rparr>],
            transactions = [\<lparr>tx_pk = 1, tx_wallet = 1, tx_txid = ''unique-txid'', tx_amount = Decimal 100 (- 1)\<rparr>]\<rparr>)
   \<and> (\<exists>es. TransactionViewSet_create 1 ''unique-txid'' (Decimal 200 (- 1))
               \<lparr>wallets = [\<lparr>wallet_pk = 1, label = ''Test Wallet'', balance = 110\<rparr>],
                transactions = [\<lparr>tx_pk = 1, tx_wallet = 1, tx_txid = ''unique-txid'', tx_amount = Decimal 100 (- 1)\<rparr>]\<rparr>
              = (Inl (ValidationError es),
                 \<lparr>wallets = [\<lparr>wallet_pk = 1, label = ''Test Wallet'', balance = 110\<rparr>],
                  transactions = [\<lparr>tx_pk = 1, tx_wallet = 1, tx_txid = ''unique-txid'', tx_amount = Decimal 100 (- 1)\<rparr>]\<rparr>)
            \<and> (''txid'', DuplicateTxid) \<in> set es)
   \<and> txid_distinct withdrawn_db
   \<and> txid_distinct (snd (handle (CreateTransaction 1 ''third'' (Decimal 1 0)) withdrawn_db))
   \<and> reachable (snd (handle (CreateWallet ''Test Wallet'') empty_db))
   \<and> txid_distinct (snd (handle (CreateWallet ''Test Wallet'') empty_db))"
proof -
  let ?t = "\<lparr>pk = None, wallet = 1, txid = ''unique-txid'', amount = Decimal 100 (- 1)\<rparr>"
  let ?s' = "\<lparr>wallets = [\<lparr>wallet_pk = 1, label = ''Test Wallet'', balance = 110\<rparr>],
            transactions = [\<lparr>tx_pk = 1, tx_wallet = 1, tx_txid = ''unique-txid'', tx_amount = Decimal 100 (- 1)\<rparr>]\<rparr>"
  have dup: "\<exists>r \<in> set (transactions deposit_db). tx_txid r = ''deposit-tx-1''"
    by (simp add: deposit_db_def)
  have w: "get_wallet 1 test_wallet_db = Some \<lparr>wallet_pk = 1, label = ''Test Wallet'', balance = 100\<rparr>"
    by (simp add: get_wallet_def test_wallet_db_def)
  have v: "is_valid_create 1 ''unique-txid'' (IsDecimal (Decimal 100 (- 1))) test_wallet_db = Inr ?t"
    using w by (simp add: is_valid_create_Inr validate_amount_IsDecimal test_wallet_db_def)
  have fc: "full_clean ?t test_wallet_db = []"
    using w
    by (simp add: full_clean_Nil_iff clean_fields_def DecimalValidator_def len_digits.simps
          clean_new_object not_pk_def decimal_value_def validate_unique_def test_wallet_db_def)
  have ms: "Model_save ?t test_wallet_db = (?t\<lparr>pk := Some 1\<rparr>, ?s')"
    by (simp add: Model_save_new fresh_pk_def row_of_def add_to_balance_def decimal_value_def
          test_wallet_db_def)
  have c: "TransactionViewSet_create 1 ''unique-txid'' (Decimal 100 (- 1)) test_wallet_db
             = (Inr (?t\<lparr>pk := Some 1\<rparr>), ?s')"
    using create_after_is_valid [OF v] fc ms by simp
  have d: "txid_distinct withdrawn_db"
    by (simp add: txid_distinct_def withdrawn_db_def)
  have r: "reachable (snd (handle (CreateWallet ''Test Wallet'') empty_db))"
    by (rule reachable.step) (rule reachable.initial)
  show ?thesis
    using duplicate_txid_rejected [of deposit_db "''deposit-tx-1''" 1 "Decimal 200 (- 1)"]
      duplicate_txid_rejected [of test_wallet_db "''unique-txid''" 1 "Decimal 100 (- 1)"
         "?t\<lparr>pk := Some 1\<rparr>" ?s' 1 "Decimal 200 (- 1)"]
      duplicate_txid_rejected [of withdrawn_db _ _ _ _ _ _ _ "CreateTransaction 1 ''third'' (Decimal 1 0)"]
      duplicate_txid_rejected [of "snd (handle (CreateWallet ''Test Wallet'') empty_db)"]
      dup c d r
    by simp
qed


section \<open>Invariants of the database\<close>

subsection \<open>Primary keys and sums\<close>

lemma fold_max_ge: "(n::nat) \<le> fold max ks n"
proof (induction ks arbitrary: n)
  case Nil
  show ?case by simp
next
  case (Cons a ks)
  have "n \<le> max a n" by simp
  also have "\<dots> \<le> fold max ks (max a n)" by (rule Cons.IH)
  finally show ?case by simp
qed

lemma fold_max_mem: "(k::nat) \<in> set ks \<Longrightarrow> k \<le> fold max ks n"
proof (induction ks arbitrary: n)
  case Nil
  then show ?case by simp
next
  case (Cons a ks)
  show ?case
  proof (cases "k = a")
    case True
    have "k \<le> max a n" using True by simp
    also have "\<dots> \<le> fold max ks (max a n)" by (rule fold_max_ge)
    finally show ?thesis by simp
  next
    case False
    with Cons.prems have "k \<in> set ks" by simp
    then show ?thesis using Cons.IH by simp
  qed
qed

lemma fresh_pk_notin: "fresh_pk ks \<notin> set ks"
proof
  assume "fresh_pk ks \<in> set ks"
  then have "fresh_pk ks \<le> fold max ks 0" by (rule fold_max_mem)
  then show False by (simp add: fresh_pk_def)
qed

lemma wallets_add_to_balance:
  "wallets (add_to_balance k a s)
     = map (\<lambda>w. if wallet_pk w = k then w\<lparr>balance := balance w + a\<rparr> else w) (wallets s)"
  by (simp add: add_to_balance_def)

lemma wallet_pks_add_to_balance [simp]:
  "map wallet_pk (wallets (add_to_balance k a s)) = map wallet_pk (wallets s)"
  by (simp add: wallets_add_to_balance comp_def if_distrib cong: if_cong)

lemma transaction_sum_add_to_balance [simp]:
  "transaction_sum j (add_to_balance k a s) = transaction_sum j s"
  by (simp add: transaction_sum_def)

lemma transaction_sum_append:
  "transaction_sum j (s\<lparr>transactions := transactions s @ [r]\<rparr>)
     = transaction_sum j s + (if tx_wallet r = j then decimal_value (tx_amount r) else 0)"
  by (simp add: transaction_sum_def)

lemma filter_other_pk:
  "k \<notin> tx_pk ` set ts \<Longrightarrow> filter (\<lambda>r. tx_pk r \<noteq> k) ts = ts"
  by (induction ts) auto

lemma sum_without_row:
  assumes "distinct (map tx_pk ts)" and "find (\<lambda>r. tx_pk r = k) ts = Some r"
  shows "sum_list (map f (filter P (filter (\<lambda>r. tx_pk r \<noteq> k) ts)))
           = sum_list (map f (filter P ts)) - (if P r then f r else (0::rat))"
  using assms
proof (induction ts)
  case Nil
  then show ?case by simp
next
  case (Cons a ts)
  show ?case
  proof (cases "tx_pk a = k")
    case True
    with Cons.prems have "a = r" and "k \<notin> tx_pk ` set ts" by auto
    then show ?thesis using True by (simp add: filter_other_pk)
  next
    case False
    with Cons.prems have "distinct (map tx_pk ts)" and "find (\<lambda>r. tx_pk r = k) ts = Some r"
      by auto
    then show ?thesis using Cons.IH False by simp
  qed
qed

lemma transaction_sum_delete:
  assumes "distinct (map tx_pk (transactions s))" and "get_transaction k s = Some r"
  shows "transaction_sum j (s\<lparr>transactions := filter (\<lambda>r. tx_pk r \<noteq> k) (transactions s)\<rparr>)
           = transaction_sum j s - (if tx_wallet r = j then decimal_value (tx_amount r) else 0)"
  using sum_without_row [OF assms(1), of k r "\<lambda>r. decimal_value (tx_amount r)" "\<lambda>r. tx_wallet r = j"]
    assms(2)
  by (simp add: transaction_sum_def get_transaction_def)

subsection \<open>What a committed operation has written\<close>

lemma destroy_Inr:
  assumes "TransactionViewSet_destroy k s = (Inr u, s')"
  shows "\<exists>r w. get_transaction k s = Some r \<and> get_wallet (tx_wallet r) s = Some w
               \<and> 0 \<le> balance w - decimal_value (tx_amount r)
               \<and> s' = add_to_balance (tx_wallet r) (- decimal_value (tx_amount r))
                        (s\<lparr>transactions := filter (\<lambda>r'. tx_pk r' \<noteq> k) (transactions s)\<rparr>)"
proof -
  obtain r where r: "get_transaction k s = Some r"
    using assms by (cases "get_transaction k s") (auto simp: TransactionViewSet_destroy_def)
  obtain w where w: "get_wallet (tx_wallet r) s = Some w"
    using assms r
    by (cases "get_wallet (tx_wallet r) s")
       (auto simp: TransactionViewSet_destroy_def TransactionViewSet_perform_destroy_def
          Transaction_delete_def atomic_def instance_of_def)
  show ?thesis
    using assms r w destroy_existing [OF r w] by (auto split: if_splits)
qed

lemma serializer_update_amount_Inr:
  assumes "serializer_update_amount k a s = (Inr t, s')"
  shows "\<exists>r. get_transaction k s = Some r \<and> t = (instance_of r)\<lparr>amount := a\<rparr>
             \<and> full_clean t s = []
             \<and> s' = s\<lparr>transactions := map (\<lambda>r'. if tx_pk r' = k then r\<lparr>tx_amount := a\<rparr> else r') (transactions s)\<rparr>"
proof -
  obtain r where r: "get_transaction k s = Some r"
    using assms by (cases "get_transaction k s") (auto simp: serializer_update_amount_def)
  obtain vd where vd: "is_valid_update (instance_of r) None None (Some (IsDecimal a)) s = Inr vd"
    using assms r
    by (cases "is_valid_update (instance_of r) None None (Some (IsDecimal a)) s")
       (auto simp: serializer_update_amount_def)
  then have vd_eq: "vd = \<lparr>vd_wallet = None, vd_txid = None, vd_amount = Some a\<rparr>"
    by (auto simp: is_valid_update_def validate_amount_IsDecimal errors_of_def split: if_splits)
  let ?i = "(instance_of r)\<lparr>amount := a\<rparr>"
  have upd: "TransactionSerializer_update (instance_of r) vd s = (Inr t, s')"
    using assms r vd by (simp add: serializer_update_amount_def)
  then have fc: "full_clean ?i s = []" and sv: "Model_save ?i s = (t, s')"
    by (auto simp: TransactionSerializer_update_def Let_def vd_eq Transaction_save_Inr split: list.splits)
  have pk: "pk ?i = Some k" and ex: "\<exists>r' \<in> set (transactions s). tx_pk r' = k"
    using r get_transaction_pk [OF r] get_transaction_mem [OF r] by (auto simp: instance_of_def)
  have row: "row_of k ?i = r\<lparr>tx_amount := a\<rparr>"
    using get_transaction_pk [OF r] by (simp add: row_of_def instance_of_def)
  show ?thesis
    using r fc sv Model_save_existing [OF pk ex] by (auto simp: row)
qed

lemma WalletViewSet_create_Inr:
  assumes "WalletViewSet_create l s = (Inr w, s')"
  shows "s' = s\<lparr>wallets := wallets s @ [\<lparr>wallet_pk = fresh_pk (map wallet_pk (wallets s)), label = l, balance = 0\<rparr>]\<rparr>"
  using assms by (auto simp: WalletViewSet_create_def Let_def split: if_splits)

lemma WalletViewSet_update_Inr:
  assumes "WalletViewSet_update k l s = (Inr w, s')"
  shows "\<exists>i. get_wallet k s = Some i
             \<and> s' = s\<lparr>wallets := map (\<lambda>w. if wallet_pk w = k then i\<lparr>label := l\<rparr> else w) (wallets s)\<rparr>"
  using assms by (auto simp: WalletViewSet_update_def split: option.splits if_splits)

lemma WalletViewSet_destroy_Inr:
  assumes "WalletViewSet_destroy k s = (Inr u, s')"
  shows "s' = Wallet_delete k s"
  using assms by (auto simp: WalletViewSet_destroy_def atomic_def split: option.splits)

lemma filter_map_other_wallets:
  "filter (\<lambda>w. wallet_pk w \<noteq> k) (map (\<lambda>w. if wallet_pk w = k then w\<lparr>balance := balance w + a\<rparr> else w) ws)
     = filter (\<lambda>w. wallet_pk w \<noteq> k) ws"
  by (induction ws) auto

lemma other_wallets_fold_delete_receiver:
  assumes "\<forall>r \<in> set rs. tx_wallet r = k"
  shows "filter (\<lambda>w. wallet_pk w \<noteq> k)
           (wallets (fold (\<lambda>r. update_wallet_balance_on_transaction_delete (instance_of r)) rs s))
         = filter (\<lambda>w. wallet_pk w \<noteq> k) (wallets s)"
  using assms
proof (induction rs arbitrary: s)
  case Nil
  show ?case by simp
next
  case (Cons r rs)
  then have "tx_wallet r = k" and "\<forall>r \<in> set rs. tx_wallet r = k" by auto
  then show ?case
    using Cons.IH [of "update_wallet_balance_on_transaction_delete (instance_of r) s"]
    by (simp add: update_wallet_balance_on_transaction_delete_def instance_of_def
          wallets_add_to_balance filter_map_other_wallets)
qed

lemma wallets_Wallet_delete:
  "wallets (Wallet_delete k s) = filter (\<lambda>w. wallet_pk w \<noteq> k) (wallets s)"
proof -
  have "filter (\<lambda>w. wallet_pk w \<noteq> k)
          (wallets (fold (\<lambda>r. update_wallet_balance_on_transaction_delete (instance_of r))
                      (filter (\<lambda>r. tx_wallet r = k) (transactions s))
                      (s\<lparr>transactions := filter (\<lambda>r. tx_wallet r \<noteq> k) (transactions s)\<rparr>)))
        = filter (\<lambda>w. wallet_pk w \<noteq> k) (wallets (s\<lparr>transactions := filter (\<lambda>r. tx_wallet r \<noteq> k) (transactions s)\<rparr>))"
    by (rule other_wallets_fold_delete_receiver) simp
  then show ?thesis by (simp add: Wallet_delete_def Let_def)
qed


subsection \<open>Primary keys stay distinct\<close>

lemma unique_wallet:
  assumes "distinct (map wallet_pk ws)" and "find (\<lambda>w. wallet_pk w = k) ws = Some w0"
    and "w \<in> set ws" and "wallet_pk w = k"
  shows "w = w0"
  using assms
proof (induction ws)
  case Nil
  then show ?case by simp
next
  case (Cons a ws)
  then show ?case by (cases "wallet_pk a = k") (auto simp: image_iff)
qed

lemma create_pk_distinct:
  assumes "pk_distinct s" and "TransactionViewSet_create k x a s = (Inr t, s')"
  shows "pk_distinct s'"
  using assms(1) create_Inr [OF assms(2)] fresh_pk_notin [of "map tx_pk (transactions s)"]
  by (simp add: pk_distinct_def)

lemma destroy_pk_distinct:
  assumes "pk_distinct s" and "TransactionViewSet_destroy k s = (Inr u, s')"
  shows "pk_distinct s'"
  using assms(1) destroy_Inr [OF assms(2)]
  by (auto simp: pk_distinct_def distinct_map_filter)

lemma update_amount_pk_distinct:
  assumes "pk_distinct s" and "serializer_update_amount k a s = (Inr t, s')"
  shows "pk_distinct s'"
proof -
  obtain r where r: "get_transaction k s = Some r"
    and s': "s' = s\<lparr>transactions := map (\<lambda>r'. if tx_pk r' = k then r\<lparr>tx_amount := a\<rparr> else r') (transactions s)\<rparr>"
    using serializer_update_amount_Inr [OF assms(2)] by blast
  have "map tx_pk (transactions s') = map tx_pk (transactions s)"
    by (simp add: s' get_transaction_pk [OF r])
  moreover have "wallets s' = wallets s"
    by (simp add: s')
  ultimately show ?thesis
    using assms(1) by (simp add: pk_distinct_def)
qed

lemma wallet_create_pk_distinct:
  assumes "pk_distinct s" and "WalletViewSet_create l s = (Inr w, s')"
  shows "pk_distinct s'"
  using assms(1) WalletViewSet_create_Inr [OF assms(2)] fresh_pk_notin [of "map wallet_pk (wallets s)"]
  by (simp add: pk_distinct_def)

lemma wallet_update_pks:
  assumes "WalletViewSet_update k l s = (Inr w, s')"
  shows "map wallet_pk (wallets s') = map wallet_pk (wallets s)" and "transactions s' = transactions s"
proof -
  obtain i where i: "get_wallet k s = Some i"
    and s': "s' = s\<lparr>wallets := map (\<lambda>w. if wallet_pk w = k then i\<lparr>label := l\<rparr> else w) (wallets s)\<rparr>"
    using WalletViewSet_update_Inr [OF assms] by blast
  show "map wallet_pk (wallets s') = map wallet_pk (wallets s)"
    by (simp add: s' get_wallet_pk [OF i])
  show "transactions s' = transactions s"
    by (simp add: s')
qed

lemma wallet_update_pk_distinct:
  assumes "pk_distinct s" and "WalletViewSet_update k l s = (Inr w, s')"
  shows "pk_distinct s'"
  using assms(1) wallet_update_pks [OF assms(2)] by (simp add: pk_distinct_def)

lemma wallet_destroy_pk_distinct:
  assumes "pk_distinct s" and "WalletViewSet_destroy k s = (Inr u, s')"
  shows "pk_distinct s'"
  using assms(1) WalletViewSet_destroy_Inr [OF assms(2)]
  by (simp add: pk_distinct_def wallets_Wallet_delete transactions_Wallet_delete distinct_map_filter)

subsection \<open>References stay valid\<close>

lemma full_clean_wallet:
  assumes "full_clean t s = []"
  shows "\<exists>w. get_wallet (wallet t) s = Some w \<and> Transaction_clean t s = Inr ()"
  using assms by (auto simp: full_clean_Nil_iff Transaction_clean_Inr)

lemma wallet_pk_mem: "get_wallet k s = Some w \<Longrightarrow> k \<in> wallet_pk ` set (wallets s)"
  using get_wallet_pk get_wallet_mem by (metis image_eqI)

lemma wallet_pk_set_add_to_balance [simp]:
  "wallet_pk ` set (wallets (add_to_balance k a s)) = wallet_pk ` set (wallets s)"
proof -
  have "set (map wallet_pk (wallets (add_to_balance k a s))) = set (map wallet_pk (wallets s))"
    by simp
  then show ?thesis by (simp only: set_map)
qed

lemma create_references_valid:
  assumes "references_valid s" and "TransactionViewSet_create k x a s = (Inr t, s')"
  shows "references_valid s'"
proof -
  have "\<exists>w. get_wallet k s = Some w"
    using create_Inr [OF assms(2)] full_clean_wallet [of "\<lparr>pk = None, wallet = k, txid = x, amount = a\<rparr>" s]
    by auto
  then have "k \<in> wallet_pk ` set (wallets s)"
    by (auto dest: wallet_pk_mem)
  then show ?thesis
    using assms(1) create_Inr [OF assms(2)] by (auto simp: references_valid_def)
qed

lemma destroy_references_valid:
  assumes "references_valid s" and "TransactionViewSet_destroy k s = (Inr u, s')"
  shows "references_valid s'"
  using assms(1) destroy_Inr [OF assms(2)] by (auto simp: references_valid_def)

lemma wallet_create_references_valid:
  assumes "references_valid s" and "WalletViewSet_create l s = (Inr w, s')"
  shows "references_valid s'"
  using assms(1) WalletViewSet_create_Inr [OF assms(2)] by (auto simp: references_valid_def)

lemma wallet_update_references_valid:
  assumes "references_valid s" and "WalletViewSet_update k l s = (Inr w, s')"
  shows "references_valid s'"
proof -
  have "set (map wallet_pk (wallets s')) = set (map wallet_pk (wallets s))"
    using wallet_update_pks(1) [OF assms(2)] by (rule arg_cong)
  then have "wallet_pk ` set (wallets s') = wallet_pk ` set (wallets s)"
    by (simp only: set_map)
  then show ?thesis
    using assms(1) wallet_update_pks(2) [OF assms(2)] by (simp add: references_valid_def)
qed

lemma wallet_destroy_references_valid:
  assumes "references_valid s" and "WalletViewSet_destroy k s = (Inr u, s')"
  shows "references_valid s'"
  using assms(1) WalletViewSet_destroy_Inr [OF assms(2)]
  by (auto simp: references_valid_def wallets_Wallet_delete transactions_Wallet_delete)

subsection \<open>Balances stay the sums of the amounts\<close>

lemma create_balance_consistent:
  assumes "balance_consistent s" and "TransactionViewSet_create k x a s = (Inr t, s')"
  shows "balance_consistent s'"
  using assms(1) create_Inr [OF assms(2)]
  by (auto simp: balance_consistent_def wallets_add_to_balance transaction_sum_append)

lemma destroy_balance_consistent:
  assumes "pk_distinct s" and "balance_consistent s" and "TransactionViewSet_destroy k s = (Inr u, s')"
  shows "balance_consistent s'"
proof -
  obtain r where r: "get_transaction k s = Some r"
    and s': "s' = add_to_balance (tx_wallet r) (- decimal_value (tx_amount r))
                    (s\<lparr>transactions := filter (\<lambda>r'. tx_pk r' \<noteq> k) (transactions s)\<rparr>)"
    using destroy_Inr [OF assms(3)] by blast
  have d: "distinct (map tx_pk (transactions s))"
    using assms(1) by (simp add: pk_distinct_def)
  show ?thesis
    using assms(2)
    by (auto simp: balance_consistent_def s' wallets_add_to_balance transaction_sum_delete [OF d r])
qed

lemma transaction_sum_unreferenced:
  assumes "references_valid s" and "j \<notin> wallet_pk ` set (wallets s)"
  shows "transaction_sum j s = 0"
proof -
  have "filter (\<lambda>r. tx_wallet r = j) (transactions s) = []"
    using assms by (auto simp: references_valid_def filter_empty_conv)
  then show ?thesis by (simp add: transaction_sum_def)
qed

lemma transaction_sum_wallets_update [simp]:
  "transaction_sum j (s\<lparr>wallets := ws\<rparr>) = transaction_sum j s"
  by (simp add: transaction_sum_def)

lemma wallet_create_balance_consistent:
  assumes "references_valid s" and "balance_consistent s" and "WalletViewSet_create l s = (Inr w, s')"
  shows "balance_consistent s'"
proof -
  have "fresh_pk (map wallet_pk (wallets s)) \<notin> wallet_pk ` set (wallets s)"
    using fresh_pk_notin [of "map wallet_pk (wallets s)"] by simp
  then have "transaction_sum (fresh_pk (map wallet_pk (wallets s))) s = 0"
    using assms(1) by (rule transaction_sum_unreferenced [rotated])
  then show ?thesis
    using assms(2) WalletViewSet_create_Inr [OF assms(3)]
    by (auto simp: balance_consistent_def)
qed

lemma wallet_update_balance_consistent:
  assumes "balance_consistent s" and "WalletViewSet_update k l s = (Inr w, s')"
  shows "balance_consistent s'"
proof -
  obtain i where i: "get_wallet k s = Some i"
    and s': "s' = s\<lparr>wallets := map (\<lambda>w. if wallet_pk w = k then i\<lparr>label := l\<rparr> else w) (wallets s)\<rparr>"
    using WalletViewSet_update_Inr [OF assms(2)] by blast
  have "balance i = transaction_sum k s"
    using assms(1) get_wallet_mem [OF i] get_wallet_pk [OF i] by (auto simp: balance_consistent_def)
  then show ?thesis
    using assms(1) get_wallet_pk [OF i] by (auto simp: balance_consistent_def s')
qed

lemma transaction_sum_Wallet_delete:
  assumes "j \<noteq> k"
  shows "transaction_sum j (Wallet_delete k s) = transaction_sum j s"
proof -
  have "filter (\<lambda>r. tx_wallet r = j) (filter (\<lambda>r. tx_wallet r \<noteq> k) (transactions s))
          = filter (\<lambda>r. tx_wallet r = j) (transactions s)"
    using assms by (auto intro: filter_cong)
  then show ?thesis
    by (simp add: transaction_sum_def transactions_Wallet_delete)
qed

lemma wallet_destroy_balance_consistent:
  assumes "balance_consistent s" and "WalletViewSet_destroy k s = (Inr u, s')"
  shows "balance_consistent s'"
  using assms(1) WalletViewSet_destroy_Inr [OF assms(2)]
  by (auto simp: balance_consistent_def wallets_Wallet_delete transaction_sum_Wallet_delete)


subsection \<open>Balances stay non-negative\<close>

lemma create_balance_nonneg:
  assumes "pk_distinct s" and "balance_nonneg s" and "TransactionViewSet_create k x a s = (Inr t, s')"
  shows "balance_nonneg s'"
proof -
  let ?t = "\<lparr>pk = None, wallet = k, txid = x, amount = a\<rparr>"
  have s': "s' = add_to_balance k (decimal_value a)
                  (s\<lparr>transactions := transactions s
                        @ [\<lparr>tx_pk = fresh_pk (map tx_pk (transactions s)), tx_wallet = k, tx_txid = x, tx_amount = a\<rparr>]\<rparr>)"
    and fc: "full_clean ?t s = []"
    using create_Inr [OF assms(3)] by simp_all
  obtain w0 where w0: "get_wallet k s = Some w0" and clean: "Transaction_clean ?t s = Inr ()"
    using full_clean_wallet [OF fc] by auto
  have ok: "0 \<le> balance w0 + decimal_value a"
    using clean clean_new_object [of ?t s w0] w0 by (simp add: not_pk_def split: if_splits)
  have "w = w0" if "w \<in> set (wallets s)" and "wallet_pk w = k" for w
    using assms(1) w0 that unique_wallet [of "wallets s" k w0 w]
    by (simp add: pk_distinct_def get_wallet_def)
  then show ?thesis
    using assms(2) ok by (auto simp: balance_nonneg_def s' wallets_add_to_balance)
qed

lemma destroy_balance_nonneg:
  assumes "pk_distinct s" and "balance_nonneg s" and "TransactionViewSet_destroy k s = (Inr u, s')"
  shows "balance_nonneg s'"
proof -
  obtain r w0 where r: "get_transaction k s = Some r" and w0: "get_wallet (tx_wallet r) s = Some w0"
    and ok: "0 \<le> balance w0 - decimal_value (tx_amount r)"
    and s': "s' = add_to_balance (tx_wallet r) (- decimal_value (tx_amount r))
                    (s\<lparr>transactions := filter (\<lambda>r'. tx_pk r' \<noteq> k) (transactions s)\<rparr>)"
    using destroy_Inr [OF assms(3)] by blast
  have "w = w0" if "w \<in> set (wallets s)" and "wallet_pk w = tx_wallet r" for w
    using assms(1) w0 that unique_wallet [of "wallets s" "tx_wallet r" w0 w]
    by (simp add: pk_distinct_def get_wallet_def)
  then show ?thesis
    using assms(2) ok by (auto simp: balance_nonneg_def s' wallets_add_to_balance)
qed

lemma update_amount_wallets:
  "wallets (snd (serializer_update_amount k a s)) = wallets s"
proof (cases "serializer_update_amount k a s")
  case (Pair r s')
  show ?thesis
  proof (cases r)
    case (Inl e)
    with Pair show ?thesis by (auto dest: serializer_update_amount_Inl)
  next
    case (Inr t)
    with Pair serializer_update_amount_Inr [of k a s t s'] show ?thesis by auto
  qed
qed

lemma wallet_create_balance_nonneg:
  assumes "balance_nonneg s" and "WalletViewSet_create l s = (Inr w, s')"
  shows "balance_nonneg s'"
  using assms(1) WalletViewSet_create_Inr [OF assms(2)] by (auto simp: balance_nonneg_def)

lemma wallet_update_balance_nonneg:
  assumes "balance_nonneg s" and "WalletViewSet_update k l s = (Inr w, s')"
  shows "balance_nonneg s'"
proof -
  obtain i where i: "get_wallet k s = Some i"
    and s': "s' = s\<lparr>wallets := map (\<lambda>w. if wallet_pk w = k then i\<lparr>label := l\<rparr> else w) (wallets s)\<rparr>"
    using WalletViewSet_update_Inr [OF assms(2)] by blast
  have "0 \<le> balance i"
    using assms(1) get_wallet_mem [OF i] by (simp add: balance_nonneg_def)
  then show ?thesis
    using assms(1) by (auto simp: balance_nonneg_def s')
qed

lemma wallet_destroy_balance_nonneg:
  assumes "balance_nonneg s" and "WalletViewSet_destroy k s = (Inr u, s')"
  shows "balance_nonneg s'"
  using assms(1) WalletViewSet_destroy_Inr [OF assms(2)]
  by (auto simp: balance_nonneg_def wallets_Wallet_delete)

subsection \<open>The operations of the interface\<close>

lemma outcome_Inr: "outcome r = (Inr u, s') \<Longrightarrow> \<exists>t. r = (Inr t, s')"
  by (auto simp: outcome_def split: prod.splits sum.splits)

text \<open>
  A property that every committed view keeps is kept by every operation: a failed one
  changes nothing, and the update of a transaction is refused.
\<close>

lemma handle_preserves:
  assumes "P s"
    and "\<And>l w s'. WalletViewSet_create l s = (Inr w, s') \<Longrightarrow> P s'"
    and "\<And>k l w s'. WalletViewSet_update k l s = (Inr w, s') \<Longrightarrow> P s'"
    and "\<And>k u s'. WalletViewSet_destroy k s = (Inr u, s') \<Longrightarrow> P s'"
    and "\<And>k x a t s'. TransactionViewSet_create k x a s = (Inr t, s') \<Longrightarrow> P s'"
    and "\<And>k u s'. TransactionViewSet_destroy k s = (Inr u, s') \<Longrightarrow> P s'"
  shows "P (snd (handle op s))"
proof (cases "handle op s")
  case (Pair r s')
  show ?thesis
  proof (cases r)
    case (Inl e)
    with Pair have "s' = s" by (auto dest: handle_Inl)
    with Pair assms(1) show ?thesis by simp
  next
    case (Inr u)
    with Pair have h: "handle op s = (Inr u, s')" by simp
    have "P s'"
    proof (cases op)
      case (CreateWallet l)
      with h assms(2) show ?thesis by (auto dest: outcome_Inr)
    next
      case (UpdateWallet k l)
      with h assms(3) show ?thesis by (auto dest: outcome_Inr)
    next
      case (DeleteWallet k)
      with h assms(4) show ?thesis by auto
    next
      case (CreateTransaction k x a)
      with h assms(5) show ?thesis by (auto dest: outcome_Inr)
    next
      case (UpdateTransactionAmount k a)
      with h show ?thesis by (simp add: partial_update_refused outcome_def)
    next
      case (DeleteTransaction k)
      with h assms(6) show ?thesis by auto
    qed
    with Pair show ?thesis by simp
  qed
qed

lemma handle_pk_distinct:
  assumes "pk_distinct s"
  shows "pk_distinct (snd (handle op s))"
  using assms
  by (rule handle_preserves)
     (auto intro: wallet_create_pk_distinct wallet_update_pk_distinct wallet_destroy_pk_distinct
        create_pk_distinct destroy_pk_distinct assms)

lemma handle_well_formed:
  assumes "well_formed s"
  shows "well_formed (snd (handle op s))"
proof -
  have d: "pk_distinct s" and r: "references_valid s" and b: "balance_consistent s"
    using assms by (simp_all add: well_formed_def)
  show ?thesis
    using assms
  proof (rule handle_preserves)
    fix l w s' assume "WalletViewSet_create l s = (Inr w, s')"
    then show "well_formed s'"
      unfolding well_formed_def
      using d r b wallet_create_pk_distinct wallet_create_references_valid wallet_create_balance_consistent
      by blast
  next
    fix k l w s' assume "WalletViewSet_update k l s = (Inr w, s')"
    then show "well_formed s'"
      unfolding well_formed_def
      using d r b wallet_update_pk_distinct wallet_update_references_valid wallet_update_balance_consistent
      by blast
  next
    fix k u s' assume "WalletViewSet_destroy k s = (Inr u, s')"
    then show "well_formed s'"
      unfolding well_formed_def
      using d r b wallet_destroy_pk_distinct wallet_destroy_references_valid wallet_destroy_balance_consistent
      by blast
  next
    fix k x a t s' assume "TransactionViewSet_create k x a s = (Inr t, s')"
    then show "well_formed s'"
      unfolding well_formed_def
      using d r b create_pk_distinct create_references_valid create_balance_consistent
      by blast
  next
    fix k u s' assume "TransactionViewSet_destroy k s = (Inr u, s')"
    then show "well_formed s'"
      unfolding well_formed_def
      using d r b destroy_pk_distinct destroy_references_valid destroy_balance_consistent
      by blast
  qed
qed

lemma handle_balance_nonneg:
  assumes "pk_distinct s" and "balance_nonneg s"
  shows "balance_nonneg (snd (handle op s))"
  using assms(2)
  by (rule handle_preserves)
     (auto intro: wallet_create_balance_nonneg wallet_update_balance_nonneg wallet_destroy_balance_nonneg
        create_balance_nonneg destroy_balance_nonneg assms)

lemma reachable_well_formed: "reachable s \<Longrightarrow> well_formed s"
proof (induction rule: reachable.induct)
  case initial
  show ?case
    by (simp add: well_formed_def pk_distinct_def references_valid_def balance_consistent_def empty_db_def)
next
  case (step s op)
  then show ?case by (simp add: handle_well_formed)
qed

lemma reachable_balance_nonneg: "reachable s \<Longrightarrow> balance_nonneg s"
proof (induction rule: reachable.induct)
  case initial
  show ?case by (simp add: balance_nonneg_def empty_db_def)
next
  case (step s op)
  then have "pk_distinct s"
    using reachable_well_formed [of s] by (simp add: well_formed_def)
  with step show ?case by (simp add: handle_balance_nonneg)
qed

lemma create_or_unchanged:
  assumes "\<And>t s'. TransactionViewSet_create k x a s = (Inr t, s') \<Longrightarrow> P s'" and "P s"
  shows "P (snd (TransactionViewSet_create k x a s))"
proof (cases "TransactionViewSet_create k x a s")
  case (Pair r s')
  then show ?thesis
    using assms by (cases r) (auto dest: TransactionViewSet_create_Inl)
qed

lemma destroy_or_unchanged:
  assumes "\<And>u s'. TransactionViewSet_destroy k s = (Inr u, s') \<Longrightarrow> P s'" and "P s"
  shows "P (snd (TransactionViewSet_destroy k s))"
proof (cases "TransactionViewSet_destroy k s")
  case (Pair r s')
  then show ?thesis
    using assms by (cases r) (auto dest: TransactionViewSet_destroy_Inl)
qed


section \<open>Balance and transaction sum\<close>

lemma deposit_db_facts:
  "pk_distinct deposit_db" "references_valid deposit_db" "balance_consistent deposit_db"
  "balance_nonneg deposit_db" "well_formed deposit_db"
  by (simp_all add: well_formed_def pk_distinct_def references_valid_def balance_consistent_def
        balance_nonneg_def transaction_sum_def decimal_value_def deposit_db_def)

lemma reachable_one_wallet: "reachable (snd (handle (CreateWallet ''Test Wallet'') empty_db))"
  by (rule reachable.step) (rule reachable.initial)

text \<open>An update of the amount through the serializer, when every check passes.\<close>

lemma serializer_update_amount_valid:
  assumes "get_transaction k s = Some r" and "validate_amount (IsDecimal a) = Inr a"
    and "full_clean ((instance_of r)\<lparr>amount := a\<rparr>) s = []"
  shows "serializer_update_amount k a s
           = (Inr ((instance_of r)\<lparr>amount := a\<rparr>),
              s\<lparr>transactions := map (\<lambda>r'. if tx_pk r' = k then r\<lparr>tx_amount := a\<rparr> else r') (transactions s)\<rparr>)"
proof -
  let ?i = "(instance_of r)\<lparr>amount := a\<rparr>"
  have vd: "is_valid_update (instance_of r) None None (Some (IsDecimal a)) s
              = Inr \<lparr>vd_wallet = None, vd_txid = None, vd_amount = Some a\<rparr>"
    using assms(2) by (simp add: is_valid_update_def errors_of_def)
  have pk: "pk ?i = Some k" and ex: "\<exists>r' \<in> set (transactions s). tx_pk r' = k"
    using get_transaction_pk [OF assms(1)] get_transaction_mem [OF assms(1)]
    by (auto simp: instance_of_def)
  have row: "row_of k ?i = r\<lparr>tx_amount := a\<rparr>"
    using get_transaction_pk [OF assms(1)] by (simp add: row_of_def instance_of_def)
  have "TransactionSerializer_update (instance_of r) \<lparr>vd_wallet = None, vd_txid = None, vd_amount = Some a\<rparr> s
          = (Inr ?i, s\<lparr>transactions := map (\<lambda>r'. if tx_pk r' = k then r\<lparr>tx_amount := a\<rparr> else r') (transactions s)\<rparr>)"
    using assms(3) Model_save_existing [OF pk ex]
    by (simp add: TransactionSerializer_update_def Transaction_save_def Let_def row)
  then show ?thesis
    using assms(1) vd by (simp add: serializer_update_amount_def)
qed

lemma deposit_db_transaction:
  "get_transaction 1 deposit_db
     = Some \<lparr>tx_pk = 1, tx_wallet = 1, tx_txid = ''deposit-tx-1'', tx_amount = Decimal 10000 (- 2)\<rparr>"
  by (simp add: get_transaction_def deposit_db_def)

lemma deposit_db_update_valid:
  assumes "exponent a = - 2" and "0 \<le> coefficient a" and "coefficient a < 100000"
  shows "validate_amount (IsDecimal a) = Inr a"
    and "full_clean ((instance_of \<lparr>tx_pk = 1, tx_wallet = 1, tx_txid = ''deposit-tx-1'', tx_amount = Decimal 10000 (- 2)\<rparr>)\<lparr>amount := a\<rparr>)
           deposit_db = []"
proof -
  show "validate_amount (IsDecimal a) = Inr a"
    using assms by (simp add: validate_amount_IsDecimal)
  have n: "nat \<bar>coefficient a\<bar> < 100000"
    using assms by simp
  have "len_digits (nat \<bar>coefficient a\<bar>) \<le> 5"
    using n by (simp add: len_digits.simps [of "nat \<bar>coefficient a\<bar>"]
          len_digits.simps [of "nat \<bar>coefficient a\<bar> div 10"]
          len_digits.simps [of "nat \<bar>coefficient a\<bar> div 10 div 10"]
          len_digits.simps [of "nat \<bar>coefficient a\<bar> div 10 div 10 div 10"]
          len_digits.simps [of "nat \<bar>coefficient a\<bar> div 10 div 10 div 10 div 10"])
  then have dv: "DecimalValidator 30 18 a = []"
    using assms(1) by (auto simp: DecimalValidator_def Let_def)
  have v: "0 \<le> decimal_value a"
    using assms by (simp add: decimal_value_def)
  show "full_clean ((instance_of \<lparr>tx_pk = 1, tx_wallet = 1, tx_txid = ''deposit-tx-1'', tx_amount = Decimal 10000 (- 2)\<rparr>)\<lparr>amount := a\<rparr>)
           deposit_db = []"
    using dv v
    by (simp add: full_clean_Nil_iff clean_fields_def instance_of_def get_wallet_def deposit_db_def
          Transaction_clean_def prospective_balance_def not_pk_def get_transaction_def
          validate_unique_def decimal_value_def [of "Decimal 10000 (- 2)"])
qed

text \<open>
  C1, as the code has it. After every committed creation and deletion of a transaction,
  and after every other operation that the interface offers, each wallet's stored
  balance is the sum of the amounts of the transactions that refer to it, provided this
  was so before and primary keys are unique; it is so in every state that the interface
  reaches from the empty database. An update of a transaction's amount is not among
  these operations: the interface refuses it.
\<close>

theorem balance_equals_transaction_sum:
  "(balance_consistent s \<longrightarrow> balance_consistent (snd (TransactionViewSet_create k x a s)))
   \<and> (pk_distinct s \<and> balance_consistent s \<longrightarrow> balance_consistent (snd (TransactionViewSet_destroy j s)))
   \<and> (well_formed s \<longrightarrow> well_formed (snd (handle op s)))
   \<and> (reachable s \<longrightarrow> balance_consistent s)"
proof (intro conjI impI)
  assume b: "balance_consistent s"
  show "balance_consistent (snd (TransactionViewSet_create k x a s))"
    using create_balance_consistent [OF b] b by (rule create_or_unchanged)
next
  assume h: "pk_distinct s \<and> balance_consistent s"
  then have "\<And>u s'. TransactionViewSet_destroy j s = (Inr u, s') \<Longrightarrow> balance_consistent s'"
    using destroy_balance_consistent by blast
  then show "balance_consistent (snd (TransactionViewSet_destroy j s))"
    using h by (auto intro: destroy_or_unchanged)
next
  assume "well_formed s"
  then show "well_formed (snd (handle op s))"
    by (rule handle_well_formed)
next
  assume "reachable s"
  then show "balance_consistent s"
    using reachable_well_formed [of s] by (simp add: well_formed_def)
qed

theorem balance_equals_transaction_sum_witness:
  "balance_consistent deposit_db \<and> pk_distinct deposit_db \<and> well_formed deposit_db
   \<and> balance_consistent (snd (TransactionViewSet_create 1 ''withdrawal-tx-1'' (Decimal (- 250) (- 1)) deposit_db))
   \<and> balance_consistent (snd (TransactionViewSet_destroy 1 deposit_db))
   \<and> well_formed (snd (handle (DeleteWallet 1) deposit_db))
   \<and> reachable (snd (handle (CreateWallet ''Test Wallet'') empty_db))
   \<and> balance_consistent (snd (handle (CreateWallet ''Test Wallet'') empty_db))"
  using balance_equals_transaction_sum [of deposit_db 1 "''withdrawal-tx-1''" "Decimal (- 250) (- 1)" 1 "DeleteWallet 1"]
    balance_equals_transaction_sum [of "snd (handle (CreateWallet ''Test Wallet'') empty_db)"]
    deposit_db_facts reachable_one_wallet
  by simp

text \<open>
  The claim as written fails for an update of the amount: in a database with one wallet
  of balance 100.00 and its one deposit of 100.00, the serializer's update to 150.00
  succeeds and leaves the balance 100.00 beside a transaction sum of 150.00.
\<close>

theorem balance_equals_transaction_sum_counterexample:
  "balance_of 1 deposit_db = Some 100 \<and> transaction_sum 1 deposit_db = 100
   \<and> serializer_update_amount 1 (Decimal 15000 (- 2)) deposit_db
       = (Inr \<lparr>pk = Some 1, wallet = 1, txid = ''deposit-tx-1'', amount = Decimal 15000 (- 2)\<rparr>,
          \<lparr>wallets = [\<lparr>wallet_pk = 1, label = ''Test Wallet'', balance = 100\<rparr>],
           transactions = [\<lparr>tx_pk = 1, tx_wallet = 1, tx_txid = ''deposit-tx-1'', tx_amount = Decimal 15000 (- 2)\<rparr>]\<rparr>)
   \<and> balance_of 1 (snd (serializer_update_amount 1 (Decimal 15000 (- 2)) deposit_db)) = Some 100
   \<and> transaction_sum 1 (snd (serializer_update_amount 1 (Decimal 15000 (- 2)) deposit_db)) = 150"
proof -
  have u: "serializer_update_amount 1 (Decimal 15000 (- 2)) deposit_db
       = (Inr \<lparr>pk = Some 1, wallet = 1, txid = ''deposit-tx-1'', amount = Decimal 15000 (- 2)\<rparr>,
          \<lparr>wallets = [\<lparr>wallet_pk = 1, label = ''Test Wallet'', balance = 100\<rparr>],
           transactions = [\<lparr>tx_pk = 1, tx_wallet = 1, tx_txid = ''deposit-tx-1'', tx_amount = Decimal 15000 (- 2)\<rparr>]\<rparr>)"
    using serializer_update_amount_valid [OF deposit_db_transaction
        deposit_db_update_valid [of "Decimal 15000 (- 2)"]]
    by (simp add: instance_of_def deposit_db_def)
  show ?thesis
    unfolding u
    by (simp add: balance_of_def get_wallet_def transaction_sum_def decimal_value_def deposit_db_def)
qed


section \<open>Non-negative balances\<close>

text \<open>
  C2. No operation leaves a wallet with a negative balance: when primary keys are unique
  and no balance is negative, no balance is negative after any operation of the
  interface (creating and deleting a transaction, creating, renaming and deleting a
  wallet), whether it commits or fails, nor after an update of a transaction's amount
  through the serializer; and no balance is negative in any state that the interface
  reaches from the empty database.
\<close>

theorem balance_never_negative:
  "(pk_distinct s \<and> balance_nonneg s \<longrightarrow>
      pk_distinct (snd (handle op s)) \<and> balance_nonneg (snd (handle op s)))
   \<and> (balance_nonneg s \<longrightarrow> balance_nonneg (snd (serializer_update_amount k a s)))
   \<and> (reachable s \<longrightarrow> balance_nonneg s)"
proof (intro conjI impI)
  assume "pk_distinct s \<and> balance_nonneg s"
  then show "pk_distinct (snd (handle op s))"
    by (simp add: handle_pk_distinct)
next
  assume "pk_distinct s \<and> balance_nonneg s"
  then show "balance_nonneg (snd (handle op s))"
    by (simp add: handle_balance_nonneg)
next
  assume "balance_nonneg s"
  then show "balance_nonneg (snd (serializer_update_amount k a s))"
    by (simp add: balance_nonneg_def update_amount_wallets)
next
  assume "reachable s"
  then show "balance_nonneg s"
    by (rule reachable_balance_nonneg)
qed

theorem balance_never_negative_witness:
  "pk_distinct deposit_db \<and> balance_nonneg deposit_db
   \<and> balance_nonneg (snd (handle (CreateTransaction 1 ''withdrawal-tx-1'' (Decimal (- 250) (- 1))) deposit_db))
   \<and> balance_nonneg (snd (handle (DeleteTransaction 1) deposit_db))
   \<and> balance_nonneg (snd (serializer_update_amount 1 (Decimal 7000 (- 2)) deposit_db))
   \<and> reachable (snd (handle (CreateWallet ''Test Wallet'') empty_db))
   \<and> balance_nonneg (snd (handle (CreateWallet ''Test Wallet'') empty_db))"
  using balance_never_negative [of deposit_db "CreateTransaction 1 ''withdrawal-tx-1'' (Decimal (- 250) (- 1))"
      1 "Decimal 7000 (- 2)"]
    balance_never_negative [of deposit_db "DeleteTransaction 1"]
    balance_never_negative [of "snd (handle (CreateWallet ''Test Wallet'') empty_db)"]
    deposit_db_facts reachable_one_wallet
  by simp

section \<open>Updating the amount of a transaction\<close>

text \<open>
  C3, as the code has it. The interface does not offer an update of a transaction: the
  viewset routes neither PUT nor PATCH, and such a request is refused without any
  change. The serializer's \<open>update\<close>, called with an existing transaction and a new amount
  that passes the precision check and the validation of the model, writes the new amount
  into the transaction's row; the rows of the wallets, and so the stored balance of the
  owning wallet, stay as they were, since the \<open>post_save\<close> receiver acts only on creation.
\<close>

theorem update_amount_keeps_balance:
  "TransactionViewSet_partial_update k a s = (Inl MethodNotAllowed, s)
   \<and> (get_transaction k s = Some r \<and> validate_amount (IsDecimal a) = Inr a
        \<and> full_clean ((instance_of r)\<lparr>amount := a\<rparr>) s = [] \<longrightarrow>
        serializer_update_amount k a s
          = (Inr ((instance_of r)\<lparr>amount := a\<rparr>),
             s\<lparr>transactions := map (\<lambda>r'. if tx_pk r' = k then r\<lparr>tx_amount := a\<rparr> else r') (transactions s)\<rparr>))
   \<and> wallets (snd (serializer_update_amount k a s)) = wallets s
   \<and> update_wallet_balance_on_transaction_save t False s = s"
  using serializer_update_amount_valid [of k s r a]
  by (simp add: partial_update_refused update_amount_wallets update_wallet_balance_on_transaction_save_def)

theorem update_amount_keeps_balance_witness:
  "get_transaction 1 deposit_db
     = Some \<lparr>tx_pk = 1, tx_wallet = 1, tx_txid = ''deposit-tx-1'', tx_amount = Decimal 10000 (- 2)\<rparr>
   \<and> validate_amount (IsDecimal (Decimal 12000 (- 2))) = Inr (Decimal 12000 (- 2))
   \<and> full_clean \<lparr>pk = Some 1, wallet = 1, txid = ''deposit-tx-1'', amount = Decimal 12000 (- 2)\<rparr> deposit_db = []
   \<and> serializer_update_amount 1 (Decimal 12000 (- 2)) deposit_db
       = (Inr \<lparr>pk = Some 1, wallet = 1, txid = ''deposit-tx-1'', amount = Decimal 12000 (- 2)\<rparr>,
          \<lparr>wallets = [\<lparr>wallet_pk = 1, label = ''Test Wallet'', balance = 100\<rparr>],
           transactions = [\<lparr>tx_pk = 1, tx_wallet = 1, tx_txid = ''deposit-tx-1'', tx_amount = Decimal 12000 (- 2)\<rparr>]\<rparr>)"
  using update_amount_keeps_balance [of 1 "Decimal 12000 (- 2)" deposit_db
      "\<lparr>tx_pk = 1, tx_wallet = 1, tx_txid = ''deposit-tx-1'', tx_amount = Decimal 10000 (- 2)\<rparr>"]
    deposit_db_transaction deposit_db_update_valid [of "Decimal 12000 (- 2)"]
  by (simp add: instance_of_def deposit_db_def)

text \<open>
  The claim as written fails: with a wallet of balance 100.00 and its one deposit of
  100.00, the update of the amount to 70.00 passes the precision check and the balance
  validation, the request through the interface is refused, and the serializer's update
  leaves the balance 100.00, where the claim has 100.00 + (70.00 - 100.00) = 70.00.
\<close>

theorem update_amount_keeps_balance_counterexample:
  "validate_amount (IsDecimal (Decimal 7000 (- 2))) = Inr (Decimal 7000 (- 2))
   \<and> Transaction_clean \<lparr>pk = Some 1, wallet = 1, txid = ''deposit-tx-1'', amount = Decimal 7000 (- 2)\<rparr> deposit_db = Inr ()
   \<and> TransactionViewSet_partial_update 1 (Decimal 7000 (- 2)) deposit_db = (Inl MethodNotAllowed, deposit_db)
   \<and> fst (serializer_update_amount 1 (Decimal 7000 (- 2)) deposit_db)
       = Inr \<lparr>pk = Some 1, wallet = 1, txid = ''deposit-tx-1'', amount = Decimal 7000 (- 2)\<rparr>
   \<and> balance_of 1 deposit_db = Some 100
   \<and> balance_of 1 (snd (serializer_update_amount 1 (Decimal 7000 (- 2)) deposit_db)) = Some 100
   \<and> 100 + (decimal_value (Decimal 7000 (- 2)) - decimal_value (Decimal 10000 (- 2))) = 70"
proof -
  have u: "serializer_update_amount 1 (Decimal 7000 (- 2)) deposit_db
       = (Inr \<lparr>pk = Some 1, wallet = 1, txid = ''deposit-tx-1'', amount = Decimal 7000 (- 2)\<rparr>,
          \<lparr>wallets = [\<lparr>wallet_pk = 1, label = ''Test Wallet'', balance = 100\<rparr>],
           transactions = [\<lparr>tx_pk = 1, tx_wallet = 1, tx_txid = ''deposit-tx-1'', tx_amount = Decimal 7000 (- 2)\<rparr>]\<rparr>)"
    using serializer_update_amount_valid [OF deposit_db_transaction
        deposit_db_update_valid [of "Decimal 7000 (- 2)"]]
    by (simp add: instance_of_def deposit_db_def)
  have c: "Transaction_clean \<lparr>pk = Some 1, wallet = 1, txid = ''deposit-tx-1'', amount = Decimal 7000 (- 2)\<rparr> deposit_db = Inr ()"
    using deposit_db_update_valid(2) [of "Decimal 7000 (- 2)"]
    by (simp add: full_clean_Nil_iff instance_of_def)
  show ?thesis
    unfolding u
    using c
    by (simp add: validate_amount_IsDecimal partial_update_refused balance_of_def get_wallet_def
          decimal_value_def deposit_db_def)
qed

end
